theory Spec2Isabelle
  imports Main "HOL-Library.Monad_Syntax"
begin

section \<open>JavaScript values\<close>

text \<open>
  The wrapper passes plain data around: arguments given by the caller, request payloads
  and response bodies. A value is \<open>undefined\<close>, \<open>null\<close>, a boolean, a number, a
  string, an array or a plain object, that is, \<open>undefined\<close>, \<open>NaN\<close> and what
  \<open>JSON.parse\<close> produces. Numbers are the integers together with \<open>NaN\<close> (the wrapper
  does no arithmetic on them), strings are lists of code units below 256, and an object
  is the list of its own properties in insertion order, its prototype being
  \<open>Object.prototype\<close>. No value of the model is callable. Functions, symbols and big
  integers are not values of the model.
\<close>

datatype jsval =
    JUndefined
  | JNull
  | JBool bool
  | JNum int
  | JNaN
  | JStr string
  | JArr "jsval list"
  | JObj "(string \<times> jsval) list"

subsection \<open>Number to string\<close>

text \<open>
  An integer prints as its decimal numeral, with a minus sign when negative. This is what
  JavaScript prints for an integer below \<open>10^21\<close> in absolute value; from there on it
  prints an exponent form, which is not reproduced here.
\<close>

fun digits :: "nat \<Rightarrow> string" where
  "digits n = (if n < 10 then [''0123456789'' ! n]
               else digits (n div 10) @ [''0123456789'' ! (n mod 10)])"

declare digits.simps [simp del]

definition show_int :: "int \<Rightarrow> string" where
  "show_int i = (if i < 0 then CHR ''-'' # digits (nat (- i)) else digits (nat i))"

subsection \<open>\<open>ToString\<close>, \<open>typeof\<close>, truthiness\<close>

fun join :: "string \<Rightarrow> string list \<Rightarrow> string" where
  "join sep [] = []"
| "join sep [s] = s"
| "join sep (s # t # ss) = s @ sep @ join sep (t # ss)"

text \<open>
  Converting a value to a string can throw a \<open>TypeError\<close>; the result is then \<open>None\<close>.
  An object is converted through its \<open>toString\<close> and \<open>valueOf\<close> methods. The inherited
  \<open>valueOf\<close> returns the object itself and an own, not callable \<open>valueOf\<close> is skipped,
  so the outcome rests on \<open>toString\<close>: the inherited one gives \<open>[object Object]\<close>, and
  an object with an own property \<open>toString\<close> (not callable, like every value here) has
  no conversion and throws. \<open>Array.prototype.toString\<close> joins the strings of the
  elements with commas, \<open>undefined\<close> and \<open>null\<close> elements giving the empty string, and
  throws when an element does.
\<close>

fun js_toString :: "jsval \<Rightarrow> string option" where
  "js_toString JUndefined = Some ''undefined''"
| "js_toString JNull = Some ''null''"
| "js_toString (JBool b) = Some (if b then ''true'' else ''false'')"
| "js_toString (JNum n) = Some (show_int n)"
| "js_toString JNaN = Some ''NaN''"
| "js_toString (JStr s) = Some s"
| "js_toString (JArr xs) =
     map_option (join '','')
       (those (map (\<lambda>x. if x = JUndefined \<or> x = JNull then Some [] else js_toString x) xs))"
| "js_toString (JObj kvs) =
     (if ''toString'' \<in> set (map fst kvs) then None else Some ''[object Object]'')"

text \<open>\<open>'s' + v\<close> for a string \<open>s\<close>: the concatenation with the string of \<open>v\<close>.\<close>

definition js_concat :: "string \<Rightarrow> jsval \<Rightarrow> string option" where
  "js_concat s v = map_option (\<lambda>t. s @ t) (js_toString v)"

fun js_typeof :: "jsval \<Rightarrow> string" where
  "js_typeof JUndefined = ''undefined''"
| "js_typeof JNull = ''object''"
| "js_typeof (JBool b) = ''boolean''"
| "js_typeof (JNum n) = ''number''"
| "js_typeof JNaN = ''number''"
| "js_typeof (JStr s) = ''string''"
| "js_typeof (JArr xs) = ''object''"
| "js_typeof (JObj kvs) = ''object''"

fun js_truthy :: "jsval \<Rightarrow> bool" where
  "js_truthy JUndefined = False"
| "js_truthy JNull = False"
| "js_truthy (JBool b) = b"
| "js_truthy (JNum n) = (n \<noteq> 0)"
| "js_truthy JNaN = False"
| "js_truthy (JStr s) = (s \<noteq> [])"
| "js_truthy (JArr xs) = True"
| "js_truthy (JObj kvs) = True"

fun isArray :: "jsval \<Rightarrow> bool" where
  "isArray (JArr xs) = True"
| "isArray v = False"

subsection \<open>\<open>isNaN\<close>\<close>

text \<open>
  \<open>isNaN(v)\<close> converts \<open>v\<close> to a number and tests the result. A string converts to
  a number other than \<open>NaN\<close> exactly when, white space trimmed, it is empty or a
  \<open>StrNumericLiteral\<close>: a signed decimal literal (digits, optional fraction, optional
  exponent, or \<open>Infinity\<close>) or an unsigned binary, octal or hexadecimal literal. An
  array or object is first converted to its string, and \<open>isNaN\<close> throws when that
  conversion does (the result \<open>None\<close>).
\<close>

definition is_ws :: "char \<Rightarrow> bool" where
  "is_ws c = (c \<in> set [CHR 0x09, CHR 0x0A, CHR 0x0B, CHR 0x0C, CHR 0x0D, CHR 0x20, CHR 0xA0])"

definition trim :: "string \<Rightarrow> string" where
  "trim s = rev (dropWhile is_ws (rev (dropWhile is_ws s)))"

definition is_digit :: "char \<Rightarrow> bool" where
  "is_digit c = (c \<in> set ''0123456789'')"

definition all_in :: "string \<Rightarrow> string \<Rightarrow> bool" where
  "all_in alphabet s = (s \<noteq> [] \<and> list_all (\<lambda>c. c \<in> set alphabet) s)"

definition is_signed_integer :: "string \<Rightarrow> bool" where
  "is_signed_integer s =
     (case s of
        [] \<Rightarrow> False
      | c # r \<Rightarrow> if c = CHR ''+'' \<or> c = CHR ''-'' then all_in ''0123456789'' r
                 else all_in ''0123456789'' s)"

definition is_exponent_opt :: "string \<Rightarrow> bool" where
  "is_exponent_opt s =
     (case s of
        [] \<Rightarrow> True
      | c # r \<Rightarrow> (c = CHR ''e'' \<or> c = CHR ''E'') \<and> is_signed_integer r)"

definition is_unsigned_decimal :: "string \<Rightarrow> bool" where
  "is_unsigned_decimal s =
     (if s = ''Infinity'' then True
      else let ip = takeWhile is_digit s; r = dropWhile is_digit s in
        (case r of
           [] \<Rightarrow> ip \<noteq> []
         | c # r2 \<Rightarrow>
             if c = CHR ''.''
             then (let fp = takeWhile is_digit r2; r3 = dropWhile is_digit r2
                   in (ip \<noteq> [] \<or> fp \<noteq> []) \<and> is_exponent_opt r3)
             else ip \<noteq> [] \<and> is_exponent_opt r))"

definition is_decimal :: "string \<Rightarrow> bool" where
  "is_decimal s =
     (case s of
        [] \<Rightarrow> False
      | c # r \<Rightarrow> if c = CHR ''+'' \<or> c = CHR ''-'' then is_unsigned_decimal r
                 else is_unsigned_decimal s)"

definition is_non_decimal :: "string \<Rightarrow> bool" where
  "is_non_decimal s =
     (case s of
        z # x # r \<Rightarrow>
          z = CHR ''0'' \<and>
          (if x = CHR ''b'' \<or> x = CHR ''B'' then all_in ''01'' r
           else if x = CHR ''o'' \<or> x = CHR ''O'' then all_in ''01234567'' r
           else if x = CHR ''x'' \<or> x = CHR ''X'' then all_in ''0123456789abcdefABCDEF'' r
           else False)
      | _ \<Rightarrow> False)"

definition str_numeric :: "string \<Rightarrow> bool" where
  "str_numeric s = (let t = trim s in t = [] \<or> is_decimal t \<or> is_non_decimal t)"

fun js_isNaN :: "jsval \<Rightarrow> bool option" where
  "js_isNaN JUndefined = Some True"
| "js_isNaN JNull = Some False"
| "js_isNaN (JBool b) = Some False"
| "js_isNaN (JNum n) = Some False"
| "js_isNaN JNaN = Some True"
| "js_isNaN (JStr s) = Some (\<not> str_numeric s)"
| "js_isNaN (JArr xs) = map_option (\<lambda>s. \<not> str_numeric s) (js_toString (JArr xs))"
| "js_isNaN (JObj kvs) = map_option (\<lambda>s. \<not> str_numeric s) (js_toString (JObj kvs))"

subsection \<open>Property access\<close>

text \<open>
  Reading a property of \<open>undefined\<close> or \<open>null\<close> throws a \<open>TypeError\<close> (the result
  \<open>None\<close>); a missing property reads as \<open>undefined\<close>. Arrays and strings have a
  \<open>length\<close>. The wrapper reads the properties \<open>data\<close>, \<open>attributes\<close>, \<open>meta\<close>,
  \<open>pagination\<close> and \<open>length\<close>, none of which \<open>Object.prototype\<close> supplies.
\<close>

definition obj_get :: "(string \<times> jsval) list \<Rightarrow> string \<Rightarrow> jsval" where
  "obj_get obj k = (case map_of obj k of Some v \<Rightarrow> v | None \<Rightarrow> JUndefined)"

fun js_get :: "jsval \<Rightarrow> string \<Rightarrow> jsval option" where
  "js_get JUndefined k = None"
| "js_get JNull k = None"
| "js_get (JObj kvs) k = Some (obj_get kvs k)"
| "js_get (JArr xs) k = Some (if k = ''length'' then JNum (int (length xs)) else JUndefined)"
| "js_get (JStr s) k = Some (if k = ''length'' then JNum (int (length s)) else JUndefined)"
| "js_get v k = Some JUndefined"

section \<open>Promises, the environment and the HTTP client\<close>

text \<open>
  A promise is settled at most once: \<open>resolve\<close> and \<open>reject\<close> on a settled promise do
  nothing. A rejection carries either a value or a \<open>TypeError\<close> that was thrown.
\<close>

datatype reason = Val jsval | TypeError

datatype promise_state = Pending | Resolved jsval | Rejected reason

fun resolve :: "jsval \<Rightarrow> promise_state \<Rightarrow> promise_state" where
  "resolve v Pending = Resolved v"
| "resolve v p = p"

fun reject :: "reason \<Rightarrow> promise_state \<Rightarrow> promise_state" where
  "reject e Pending = Rejected e"
| "reject e p = p"

text \<open>
  \<open>process.env\<close>: the two variables the module uses; \<open>None\<close> is an unset variable,
  which reads as \<open>undefined\<close>. \<open>env_string\<close> is the string such a value contributes
  to a concatenation.
\<close>

record env =
  ADMIN_HOST :: "string option"
  ADMIN_KEY :: "string option"

definition env_string :: "string option \<Rightarrow> string" where
  "env_string x = (case x of None \<Rightarrow> ''undefined'' | Some s \<Rightarrow> s)"

text \<open>
  One call of the HTTP client: which function called the client, the method, the URL,
  the body (for PATCH and POST) and the configuration object. The client answers a call
  with a response or with an error; the answer is an input of the model.
\<close>

datatype issuer = AdminGetRequest | AdminDeleteRequest | AdminPatchRequest | AdminPostRequest
  | SetApiKeyProbe

datatype http_method = GET | DELETE | PATCH | POST

record http_call =
  call_by :: issuer
  call_method :: http_method
  call_url :: jsval
  call_body :: "jsval option"
  call_config :: jsval

record response =
  resp_status :: int
  resp_data :: jsval

record axios_error =
  err_status :: "int option"
  err_message :: string

datatype axios_outcome = Fulfilled response | Failed axios_error

type_synonym network = "http_call \<Rightarrow> axios_outcome"

section \<open>request.js\<close>

text \<open>
  The four helpers take the path as a string, as documented; \<open>host + path\<close> and
  \<open>'Bearer ' + key\<close> are then concatenations of strings, an unset variable
  contributing \<open>undefined\<close>.
\<close>

definition headers :: "string \<Rightarrow> jsval" where
  "headers key = JObj
     [(''Authorization'', JStr (''Bearer '' @ key)),
      (''Content-Type'', JStr ''application/json''),
      (''Accept'', JStr ''Application/vnd.pterodactyl.v1+json'')]"

definition getRequest :: "env \<Rightarrow> network \<Rightarrow> string \<Rightarrow> http_call \<times> promise_state" where
  "getRequest e net path =
     (let host = env_string (ADMIN_HOST e);
          key = env_string (ADMIN_KEY e);
          c = \<lparr>call_by = AdminGetRequest, call_method = GET, call_url = JStr (host @ path),
               call_body = None, call_config = JObj [(''headers'', headers key)]\<rparr>
      in (c,
          case net c of
            Fulfilled response \<Rightarrow>
              if resp_status response = 404
              then reject (Val (JStr ''404 Not found, check your host is correct'')) Pending
              else if resp_status response = 403
              then reject (Val (JStr ''403 Forbidden, please check your API key is correct, or that you setup permissions correctly'')) Pending
              else if resp_status response = 500
              then reject (Val (JStr ''500 Internal Server Error, check your server logs for the error'')) Pending
              else resolve (JObj [(''data'', resp_data response)]) Pending
          | Failed error \<Rightarrow> reject (Val (JStr (err_message error))) Pending))"

definition deleteRequest :: "env \<Rightarrow> network \<Rightarrow> string \<Rightarrow> http_call \<times> promise_state" where
  "deleteRequest e net path =
     (let host = env_string (ADMIN_HOST e);
          key = env_string (ADMIN_KEY e);
          c = \<lparr>call_by = AdminDeleteRequest, call_method = DELETE, call_url = JStr (host @ path),
               call_body = None, call_config = JObj [(''headers'', headers key)]\<rparr>
      in (c,
          case net c of
            Fulfilled response \<Rightarrow>
              if resp_status response = 404
              then reject (Val (JStr ''404 Not found, check your host is correct'')) Pending
              else if resp_status response = 403
              then reject (Val (JStr ''403 Forbidden, please check your API key is correct, or that you setup permissions correctly'')) Pending
              else if resp_status response = 500
              then reject (Val (JStr ''500 Internal Server Error, check your server logs for the error'')) Pending
              else resolve (JObj [(''data'', resp_data response)]) Pending
          | Failed error \<Rightarrow> reject (Val (JStr (err_message error))) Pending))"

definition patchRequest :: "env \<Rightarrow> network \<Rightarrow> string \<Rightarrow> jsval \<Rightarrow> http_call \<times> promise_state" where
  "patchRequest e net path data =
     (let host = env_string (ADMIN_HOST e);
          key = env_string (ADMIN_KEY e);
          c = \<lparr>call_by = AdminPatchRequest, call_method = PATCH, call_url = JStr (host @ path),
               call_body = Some data, call_config = JObj [(''headers'', headers key)]\<rparr>
      in (c,
          case net c of
            Fulfilled response \<Rightarrow>
              if resp_status response = 404
              then reject (Val (JStr ''404 Not found, check your host is correct'')) Pending
              else if resp_status response = 403
              then reject (Val (JStr ''403 Forbidden, please check your API key is correct, or that you setup permissions correctly'')) Pending
              else if resp_status response = 500
              then reject (Val (JStr ''500 Internal Server Error, check your server logs for the error'')) Pending
              else resolve (JObj [(''data'', resp_data response)]) Pending
          | Failed error \<Rightarrow> reject (Val (JStr (err_message error))) Pending))"

text \<open>\<open>postRequest\<close> has the default \<open>data = {}\<close>, used when the argument is \<open>undefined\<close>.\<close>

definition postRequest :: "env \<Rightarrow> network \<Rightarrow> string \<Rightarrow> jsval \<Rightarrow> http_call \<times> promise_state" where
  "postRequest e net path data0 =
     (let data = (if data0 = JUndefined then JObj [] else data0);
          host = env_string (ADMIN_HOST e);
          key = env_string (ADMIN_KEY e);
          c = \<lparr>call_by = AdminPostRequest, call_method = POST, call_url = JStr (host @ path),
               call_body = Some data,
               call_config = JObj [(''headers'', headers key), (''followRedirect'', JBool True),
                                   (''maxRedirects'', JNum 3)]\<rparr>
      in (c,
          case net c of
            Fulfilled response \<Rightarrow>
              if resp_status response = 404
              then reject (Val (JStr ''404 Not found, check your host is correct'')) Pending
              else if resp_status response = 403
              then reject (Val (JStr ''403 Forbidden, please check your API key is correct, or that you setup permissions correctly'')) Pending
              else if resp_status response = 500
              then reject (Val (JStr ''500 Internal Server Error, check your server logs for the error'')) Pending
              else resolve (JObj [(''data'', resp_data response)]) Pending
          | Failed error \<Rightarrow> reject (Val (JStr (err_message error))) Pending))"

section \<open>methods/servers/index.js\<close>

text \<open>
  What one invocation of an exported function does: the final state of the promise it
  returns, the HTTP calls it issued, the lines it wrote to the console, and
  \<open>process.env\<close> after the call.
\<close>

record run =
  promise :: promise_state
  calls :: "http_call list"
  console :: "string list"
  env_after :: env

text \<open>
  \<open>p.then(on_ok).catch(on_err)\<close> for a settled promise \<open>p\<close>, acting on the state of
  the outer promise. A handler that throws gives \<open>None\<close>; what \<open>on_ok\<close> throws is
  passed to \<open>on_err\<close>, what \<open>on_err\<close> throws is lost.
\<close>

definition then_catch ::
  "promise_state \<Rightarrow> (jsval \<Rightarrow> promise_state \<Rightarrow> promise_state option) \<Rightarrow>
   (reason \<Rightarrow> promise_state \<Rightarrow> promise_state option) \<Rightarrow> promise_state \<Rightarrow> promise_state" where
  "then_catch hp on_ok on_err p =
     (case hp of
        Pending \<Rightarrow> p
      | Resolved v \<Rightarrow>
          (case on_ok v p of
             Some p' \<Rightarrow> p'
           | None \<Rightarrow> (case on_err TypeError p of Some p' \<Rightarrow> p' | None \<Rightarrow> p))
      | Rejected r \<Rightarrow> (case on_err r p of Some p' \<Rightarrow> p' | None \<Rightarrow> p))"

text \<open>
  Every exported function of this file runs its body as the executor of
  \<open>new Promise\<close>. When the executor throws, the promise is rejected with what was
  thrown, unless it is settled already, and the rest of the executor does not run: no
  request is issued.
\<close>

definition aborted :: "promise_state \<Rightarrow> env \<Rightarrow> run" where
  "aborted p e = \<lparr>promise = reject TypeError p, calls = [], console = [], env_after = e\<rparr>"

text \<open>
  The validation block of a function is a sequence of statements
  \<open>if (c) { reject(m); }\<close>. None of them returns, so every check is evaluated in turn
  and the function goes on to its request. A condition is \<open>None\<close> when evaluating it
  throws; the executor stops there.
\<close>

datatype progress = Aborted promise_state | Continues promise_state

fun validate :: "(bool option \<times> string) list \<Rightarrow> promise_state \<Rightarrow> progress" where
  "validate [] p = Continues p"
| "validate ((None, m) # cs) p = Aborted p"
| "validate ((Some c, m) # cs) p = validate cs (if c then reject (Val (JStr m)) p else p)"

text \<open>\<open>xs.map(f)\<close>: a \<open>TypeError\<close> unless \<open>xs\<close> is an array.\<close>

definition js_map :: "(jsval \<Rightarrow> jsval option) \<Rightarrow> jsval \<Rightarrow> jsval option" where
  "js_map f v = (case v of JArr xs \<Rightarrow> map_option JArr (those (map f xs)) | _ \<Rightarrow> None)"

text \<open>
  \<open>filterObject\<close> keeps the properties whose value satisfies the predicate:
  \<open>Object.keys(obj).filter(...)\<close> and then a \<open>reduce\<close> that copies each kept key.
\<close>

definition obj_set :: "(string \<times> jsval) list \<Rightarrow> string \<Rightarrow> jsval \<Rightarrow> (string \<times> jsval) list" where
  "obj_set obj k v =
     (if k \<in> set (map fst obj) then map (\<lambda>(k', v'). if k' = k then (k', v) else (k', v')) obj
      else obj @ [(k, v)])"

definition filterObject :: "(string \<times> jsval) list \<Rightarrow> (jsval \<Rightarrow> bool) \<Rightarrow> (string \<times> jsval) list" where
  "filterObject obj predicate =
     foldl (\<lambda>res k. obj_set res k (obj_get obj k)) []
       (filter (\<lambda>k. predicate (obj_get obj k)) (map fst obj))"

definition getAllServers :: "env \<Rightarrow> network \<Rightarrow> run" where
  "getAllServers e net =
     (let (c, hp) = getRequest e net ''/api/application/servers''
      in \<lparr>promise =
            then_catch hp
              (\<lambda>response p. do {
                 d \<leftarrow> js_get response ''data'';
                 dd \<leftarrow> js_get d ''data'';
                 servers \<leftarrow> js_map (\<lambda>data. js_get data ''attributes'') dd;
                 meta \<leftarrow> js_get d ''meta'';
                 pagination \<leftarrow> js_get meta ''pagination'';
                 Some (resolve (JObj [(''servers'', servers), (''pagination'', pagination)]) p)
               })
              (\<lambda>error p. Some (reject error p))
              Pending,
          calls = [c], console = [], env_after = e\<rparr>)"

text \<open>
  In \<open>getServerInformation\<close> the path is the expression
  \<open>'/api/application/servers/' + external ? 'external/' + id : id\<close>, in which \<open>+\<close> binds
  tighter than the conditional: the condition is the string
  \<open>'/api/application/servers/' + external\<close>. That string is never empty, so the second
  alternative is never taken; there \<open>id\<close> itself is handed to \<open>getRequest\<close>, which
  concatenates it to the host.
\<close>

definition getServerInformation :: "jsval \<Rightarrow> jsval \<Rightarrow> env \<Rightarrow> network \<Rightarrow> run" where
  "getServerInformation sid external0 e net =
     (let external = (if external0 = JUndefined then JBool False else external0)
      in case js_concat ''/api/application/servers/'' external of
           None \<Rightarrow> aborted Pending e
         | Some condition \<Rightarrow>
             (case (if js_truthy (JStr condition) then js_concat ''external/'' sid
                    else js_toString sid) of
                None \<Rightarrow> aborted Pending e
              | Some path \<Rightarrow>
                  (let (c, hp) = getRequest e net path
                   in \<lparr>promise =
                         then_catch hp
                           (\<lambda>response p. do {
                              d \<leftarrow> js_get response ''data'';
                              a \<leftarrow> js_get d ''attributes'';
                              Some (resolve a p)
                            })
                           (\<lambda>error p. Some (reject error p))
                           Pending,
                       calls = [c], console = [], env_after = e\<rparr>)))"

text \<open>The check shared by the functions whose only validated argument is the server id.\<close>

definition internal_id_checks :: "jsval \<Rightarrow> (bool option \<times> string) list" where
  "internal_id_checks internal_id = [(js_isNaN internal_id, ''Internal ID must be a number'')]"

definition getAllDatabases :: "jsval \<Rightarrow> env \<Rightarrow> network \<Rightarrow> run" where
  "getAllDatabases internal_id e net =
     (case validate (internal_id_checks internal_id) Pending of
        Aborted p \<Rightarrow> aborted p e
      | Continues p0 \<Rightarrow>
          (case js_concat ''/api/application/servers/'' internal_id of
             None \<Rightarrow> aborted p0 e
           | Some s \<Rightarrow>
               (let (c, hp) = getRequest e net (s @ ''/databases'')
                in \<lparr>promise =
                      then_catch hp
                        (\<lambda>response p. do {
                           d \<leftarrow> js_get response ''data'';
                           dd \<leftarrow> js_get d ''data'';
                           databases \<leftarrow> js_map (\<lambda>database. js_get database ''attributes'') dd;
                           Some (resolve (JObj [(''databases'', databases)]) p)
                         })
                        (\<lambda>error p. Some (reject error p))
                        p0,
                    calls = [c], console = [], env_after = e\<rparr>)))"

definition getDatabase_checks :: "jsval \<Rightarrow> jsval \<Rightarrow> (bool option \<times> string) list" where
  "getDatabase_checks internal_id database_id =
     [(js_isNaN internal_id, ''Internal ID must be a number''),
      (js_isNaN database_id, ''Database ID must be a number'')]"

definition getDatabase :: "jsval \<Rightarrow> jsval \<Rightarrow> env \<Rightarrow> network \<Rightarrow> run" where
  "getDatabase internal_id database_id e net =
     (case validate (getDatabase_checks internal_id database_id) Pending of
        Aborted p \<Rightarrow> aborted p e
      | Continues p0 \<Rightarrow>
          (case do {
                  s \<leftarrow> js_concat ''/api/application/servers/'' internal_id;
                  js_concat (s @ ''/databases/'') database_id
                } of
             None \<Rightarrow> aborted p0 e
           | Some path \<Rightarrow>
               (let (c, hp) = getRequest e net path
                in \<lparr>promise =
                      then_catch hp
                        (\<lambda>response p. do {
                           d \<leftarrow> js_get response ''data'';
                           a \<leftarrow> js_get d ''attributes'';
                           Some (resolve a p)
                         })
                        (\<lambda>error p. Some (reject error p))
                        p0,
                    calls = [c], console = [], env_after = e\<rparr>)))"

text \<open>
  \<open>error.includes('403')\<close>: substring search on a string, membership on an array, and
  a \<open>TypeError\<close> on anything else.
\<close>

fun is_infix :: "string \<Rightarrow> string \<Rightarrow> bool" where
  "is_infix pat [] = (pat = [])"
| "is_infix pat (c # s) = (take (length pat) (c # s) = pat \<or> is_infix pat s)"

fun js_includes :: "reason \<Rightarrow> string \<Rightarrow> bool option" where
  "js_includes (Val (JStr s)) pat = Some (is_infix pat s)"
| "js_includes (Val (JArr xs)) pat = Some (JStr pat \<in> set xs)"
| "js_includes r pat = None"

definition createDatabase_checks ::
  "jsval \<Rightarrow> jsval \<Rightarrow> jsval \<Rightarrow> jsval \<Rightarrow> (bool option \<times> string) list" where
  "createDatabase_checks internal_id database host remote =
     [(js_isNaN internal_id, ''Internal ID must be a number''),
      (Some (\<not> js_truthy database \<or> js_typeof database \<noteq> ''string''),
       ''Database name must be a string''),
      (Some (\<not> js_truthy host \<or> js_typeof host \<noteq> ''number''),
       ''Database host must be a integer''),
      (Some (\<not> js_truthy remote \<or> js_typeof remote \<noteq> ''string''),
       ''Database remote connection rule must be a string'')]"

definition createDatabase :: "jsval \<Rightarrow> jsval \<Rightarrow> jsval \<Rightarrow> jsval \<Rightarrow> env \<Rightarrow> network \<Rightarrow> run" where
  "createDatabase internal_id database host remote e net =
     (case validate (createDatabase_checks internal_id database host remote) Pending of
        Aborted p \<Rightarrow> aborted p e
      | Continues p0 \<Rightarrow>
          (case js_concat ''/api/application/servers/'' internal_id of
             None \<Rightarrow> aborted p0 e
           | Some s \<Rightarrow>
               (let (c, hp) = postRequest e net (s @ ''/databases'')
                      (JObj [(''database'', database), (''remote'', remote), (''host'', host)])
                in \<lparr>promise =
                      then_catch hp
                        (\<lambda>response p. do {
                           d \<leftarrow> js_get response ''data'';
                           a \<leftarrow> js_get d ''attributes'';
                           Some (resolve a p)
                         })
                        (\<lambda>error p. do {
                           b \<leftarrow> js_includes error ''403'';
                           Some (if b
                             then reject (Val (JStr (''Request failed with status code 403'' @ [CHR 0x0A] @
                               ''Possible reasons: invalid API key, reached limit of databases for that server, not your server''))) p
                             else reject error p)
                         })
                        p0,
                    calls = [c], console = [], env_after = e\<rparr>)))"

text \<open>A default parameter value is used when the argument is \<open>undefined\<close>.\<close>

definition default_to :: "jsval \<Rightarrow> jsval \<Rightarrow> jsval" where
  "default_to d v = (if v = JUndefined then d else v)"

definition createServer_checks ::
  "jsval \<Rightarrow> jsval \<Rightarrow> jsval \<Rightarrow> jsval \<Rightarrow> jsval \<Rightarrow> jsval \<Rightarrow> jsval \<Rightarrow> jsval \<Rightarrow> jsval \<Rightarrow> jsval \<Rightarrow>
   jsval \<Rightarrow> jsval \<Rightarrow> jsval \<Rightarrow> jsval \<Rightarrow> jsval \<Rightarrow> jsval \<Rightarrow> jsval \<Rightarrow> jsval \<Rightarrow> jsval \<Rightarrow> jsval \<Rightarrow>
   (bool option \<times> string) list" where
  "createServer_checks name description userID eggID startup dockerImage allocationID
     startOnComplete environment memory disk cpu swap io additionalAllocations databases
     allocations deploy skipScripts oomDisabled =
     [(Some (js_typeof name \<noteq> ''string''), ''Error: Server name must be a string''),
      (Some (js_typeof userID \<noteq> ''number''), ''Error: User ID must be a number''),
      (Some (js_typeof eggID \<noteq> ''number''), ''Error: Egg ID must be a number''),
      (Some (js_typeof startup \<noteq> ''string''), ''Error: Startup command must be a string''),
      (Some (js_typeof memory \<noteq> ''number''), ''Error: Memory allocated must be a number''),
      (Some (js_typeof disk \<noteq> ''number''), ''Error: Disk space must be a number''),
      (Some (js_typeof dockerImage \<noteq> ''string''), ''Error: Docker image must be a string''),
      (Some (js_typeof allocationID \<noteq> ''number''), ''Error: Allocation ID must be a number''),
      (Some (js_typeof startOnComplete \<noteq> ''boolean''),
       ''Error: Start on complete setting must be a boolean''),
      (Some (\<not> isArray additionalAllocations),
       ''Error: Additional allocations must be an array''),
      (Some (js_typeof cpu \<noteq> ''number''), ''Error: CPU limit must be a number''),
      (Some (js_typeof swap \<noteq> ''number''), ''Error: Swap space must be a number''),
      (Some (js_typeof io \<noteq> ''number''), ''Error: Block IO proportion must be a number''),
      (Some (js_typeof environment \<noteq> ''object''),
       ''Error: Environment variables must be in an Object''),
      (Some (js_typeof databases \<noteq> ''number''), ''Error: Database allocations must be a number''),
      (Some (js_typeof deploy \<noteq> ''object''), ''Error: Deployment settings must be in an Object''),
      (Some (js_typeof skipScripts \<noteq> ''boolean''),
       ''Error: Skip scripts setting must be a boolean''),
      (Some (js_typeof oomDisabled \<noteq> ''boolean''),
       ''Error: OOM Killer setting must be a boolean'')]"

definition createServer_data ::
  "jsval \<Rightarrow> jsval \<Rightarrow> jsval \<Rightarrow> jsval \<Rightarrow> jsval \<Rightarrow> jsval \<Rightarrow> jsval \<Rightarrow> jsval \<Rightarrow> jsval \<Rightarrow> jsval \<Rightarrow>
   jsval \<Rightarrow> jsval \<Rightarrow> jsval \<Rightarrow> jsval \<Rightarrow> jsval \<Rightarrow> jsval \<Rightarrow> jsval \<Rightarrow> jsval \<Rightarrow> jsval \<Rightarrow> jsval \<Rightarrow>
   jsval" where
  "createServer_data name description userID eggID startup dockerImage allocationID
     startOnComplete environment memory disk cpu swap io additionalAllocations databases
     allocations deploy skipScripts oomDisabled =
     JObj
       [(''name'', name),
        (''description'', description),
        (''startup'', startup),
        (''environment'', environment),
        (''deploy'', deploy),
        (''start_on_completion'', startOnComplete),
        (''user'', userID),
        (''egg'', eggID),
        (''limits'', JObj [(''memory'', memory), (''swap'', swap), (''disk'', disk), (''io'', io),
                           (''cpu'', cpu)]),
        (''feature_limits'', JObj [(''databases'', databases), (''allocations'', allocations)]),
        (''docker_image'', dockerImage),
        (''allocation'', JObj [(''default'', allocationID),
                               (''additional'', additionalAllocations)]),
        (''skip_scripts'', skipScripts),
        (''oom_disabled'', oomDisabled)]"

text \<open>
  \<open>createServer\<close> applies \<open>typeof\<close> and \<open>Array.isArray\<close> only, which never throw, and
  its path is a literal.
\<close>

definition createServer ::
  "jsval \<Rightarrow> jsval \<Rightarrow> jsval \<Rightarrow> jsval \<Rightarrow> jsval \<Rightarrow> jsval \<Rightarrow> jsval \<Rightarrow> jsval \<Rightarrow> jsval \<Rightarrow> jsval \<Rightarrow>
   jsval \<Rightarrow> jsval \<Rightarrow> jsval \<Rightarrow> jsval \<Rightarrow> jsval \<Rightarrow> jsval \<Rightarrow> jsval \<Rightarrow> jsval \<Rightarrow> jsval \<Rightarrow> jsval \<Rightarrow>
   env \<Rightarrow> network \<Rightarrow> run" where
  "createServer name description userID eggID startup dockerImage allocationID
     startOnComplete environment memory disk cpu0 swap0 io0 additionalAllocations0 databases0
     allocations0 deploy0 skipScripts0 oomDisabled0 e net =
     (let cpu = default_to (JNum 0) cpu0;
          swap = default_to (JNum (- 1)) swap0;
          io = default_to (JNum 500) io0;
          additionalAllocations = default_to (JArr []) additionalAllocations0;
          databases = default_to (JNum 0) databases0;
          allocations = default_to (JNum 0) allocations0;
          deploy = default_to
            (JObj [(''locations'', JArr [JNum 1]), (''dedicated_ip'', JBool False),
                   (''port_range'', JArr [])]) deploy0;
          skipScripts = default_to (JBool False) skipScripts0;
          oomDisabled = default_to (JBool True) oomDisabled0
      in case validate
            (createServer_checks name description userID eggID startup dockerImage allocationID
               startOnComplete environment memory disk cpu swap io additionalAllocations
               databases allocations deploy skipScripts oomDisabled) Pending of
           Aborted p \<Rightarrow> aborted p e
         | Continues p0 \<Rightarrow>
             (let out = (if js_typeof io = ''number'' \<and> io \<noteq> JNum 500
                         then [''Block IO proportion is not set to 500, I sure hope you know what you are doing'']
                         else []);
                  data = createServer_data name description userID eggID startup dockerImage
                    allocationID startOnComplete environment memory disk cpu swap io
                    additionalAllocations databases allocations deploy skipScripts oomDisabled;
                  (c, hp) = postRequest e net ''/api/application/servers'' data
              in \<lparr>promise =
                    then_catch hp
                      (\<lambda>response p. do {
                         d \<leftarrow> js_get response ''data'';
                         a \<leftarrow> js_get d ''attributes'';
                         Some (resolve (JObj [(''server'', a)]) p)
                       })
                      (\<lambda>error p. Some (reject error p))
                      p0,
                  calls = [c], console = out, env_after = e\<rparr>))"

definition suspendServer :: "jsval \<Rightarrow> env \<Rightarrow> network \<Rightarrow> run" where
  "suspendServer internal_id e net =
     (case validate (internal_id_checks internal_id) Pending of
        Aborted p \<Rightarrow> aborted p e
      | Continues p0 \<Rightarrow>
          (case js_concat ''/api/application/servers/'' internal_id of
             None \<Rightarrow> aborted p0 e
           | Some s \<Rightarrow>
               (let (c, hp) = postRequest e net (s @ ''/suspend'') JUndefined
                in \<lparr>promise =
                      then_catch hp
                        (\<lambda>response p. Some (resolve (JStr ''Successfully suspended the server'') p))
                        (\<lambda>err p. Some (reject err p))
                        p0,
                    calls = [c], console = [], env_after = e\<rparr>)))"

definition unsuspendServer :: "jsval \<Rightarrow> env \<Rightarrow> network \<Rightarrow> run" where
  "unsuspendServer internal_id e net =
     (case validate (internal_id_checks internal_id) Pending of
        Aborted p \<Rightarrow> aborted p e
      | Continues p0 \<Rightarrow>
          (case js_concat ''/api/application/servers/'' internal_id of
             None \<Rightarrow> aborted p0 e
           | Some s \<Rightarrow>
               (let (c, hp) = postRequest e net (s @ ''/unsuspend'') JUndefined
                in \<lparr>promise =
                      then_catch hp
                        (\<lambda>response p. Some (resolve (JStr ''Successfully unsuspended the server'') p))
                        (\<lambda>err p. Some (reject err p))
                        p0,
                    calls = [c], console = [], env_after = e\<rparr>)))"

definition reinstallServer :: "jsval \<Rightarrow> env \<Rightarrow> network \<Rightarrow> run" where
  "reinstallServer internal_id e net =
     (case validate (internal_id_checks internal_id) Pending of
        Aborted p \<Rightarrow> aborted p e
      | Continues p0 \<Rightarrow>
          (case js_concat ''/api/application/servers/'' internal_id of
             None \<Rightarrow> aborted p0 e
           | Some s \<Rightarrow>
               (let (c, hp) = postRequest e net (s @ ''/reinstall'') JUndefined
                in \<lparr>promise =
                      then_catch hp
                        (\<lambda>response p. Some (resolve (JStr ''Successfully started to reinstall the server'') p))
                        (\<lambda>err p. Some (reject err p))
                        p0,
                    calls = [c], console = [], env_after = e\<rparr>)))"

definition rebuildServer :: "jsval \<Rightarrow> env \<Rightarrow> network \<Rightarrow> run" where
  "rebuildServer internal_id e net =
     (case validate (internal_id_checks internal_id) Pending of
        Aborted p \<Rightarrow> aborted p e
      | Continues p0 \<Rightarrow>
          (case js_concat ''/api/application/servers/'' internal_id of
             None \<Rightarrow> aborted p0 e
           | Some s \<Rightarrow>
               (let (c, hp) = postRequest e net (s @ ''/rebuild'') JUndefined
                in \<lparr>promise =
                      then_catch hp
                        (\<lambda>response p. Some (resolve (JStr ''Successfully started to rebuild the server'') p))
                        (\<lambda>err p. Some (reject err p))
                        p0,
                    calls = [c], console = [], env_after = e\<rparr>)))"

definition deleteServer :: "jsval \<Rightarrow> env \<Rightarrow> network \<Rightarrow> run" where
  "deleteServer internal_id e net =
     (case validate (internal_id_checks internal_id) Pending of
        Aborted p \<Rightarrow> aborted p e
      | Continues p0 \<Rightarrow>
          (case js_concat ''/api/application/servers/'' internal_id of
             None \<Rightarrow> aborted p0 e
           | Some s \<Rightarrow>
               (let (c, hp) = deleteRequest e net s
                in \<lparr>promise =
                      then_catch hp
                        (\<lambda>response p. Some (resolve (JStr ''Successfully deleted the server'') p))
                        (\<lambda>err p. Some (reject err p))
                        p0,
                    calls = [c], console = [], env_after = e\<rparr>)))"

definition updateServerDetails_checks ::
  "jsval \<Rightarrow> jsval \<Rightarrow> jsval \<Rightarrow> (bool option \<times> string) list" where
  "updateServerDetails_checks internal_id name user =
     [(js_isNaN internal_id, ''Internal ID must be a number''),
      (Some (\<not> js_truthy name \<or> js_typeof name \<noteq> ''string''), ''You must supply a valid name''),
      (Some (\<not> js_truthy user \<or> js_typeof user \<noteq> ''number''),
       ''You must supply a valid user ID'')]"

definition updateServerDetails ::
  "jsval \<Rightarrow> jsval \<Rightarrow> jsval \<Rightarrow> jsval \<Rightarrow> jsval \<Rightarrow> env \<Rightarrow> network \<Rightarrow> run" where
  "updateServerDetails internal_id name user external_id description e net =
     (case validate (updateServerDetails_checks internal_id name user) Pending of
        Aborted p \<Rightarrow> aborted p e
      | Continues p0 \<Rightarrow>
          (let obj0 = [(''name'', name), (''user'', user)];
               obj1 = (if js_truthy external_id then obj_set obj0 ''external_id'' external_id
                       else obj0);
               obj = (if js_truthy description \<and> js_typeof description = ''string''
                      then obj_set obj1 ''description'' description else obj1)
           in case js_concat ''/api/application/servers/'' internal_id of
                None \<Rightarrow> aborted p0 e
              | Some s \<Rightarrow>
                  (let (c, hp) = patchRequest e net (s @ ''/details'') (JObj obj)
                   in \<lparr>promise =
                         then_catch hp
                           (\<lambda>response p. do {
                              d \<leftarrow> js_get response ''data'';
                              a \<leftarrow> js_get d ''attributes'';
                              Some (resolve (JObj [(''server'', a)]) p)
                            })
                           (\<lambda>error p. Some (reject error p))
                           p0,
                       calls = [c], console = [], env_after = e\<rparr>)))"

definition updateServerBuildConfiguration_checks ::
  "jsval \<Rightarrow> jsval \<Rightarrow> (bool option \<times> string) list" where
  "updateServerBuildConfiguration_checks internal_id allocation_id =
     [(js_isNaN internal_id, ''Internal ID must be a number''),
      (Some (\<not> js_truthy allocation_id), ''You must supply an allocation ID'')]"

text \<open>\<open>v && v.length\<close> is truthy; the property is read only when \<open>v\<close> itself is truthy.\<close>

definition has_length :: "jsval \<Rightarrow> bool" where
  "has_length v =
     (js_truthy v \<and> (case js_get v ''length'' of Some l \<Rightarrow> js_truthy l | None \<Rightarrow> False))"

definition updateServerBuildConfiguration ::
  "jsval \<Rightarrow> jsval \<Rightarrow> jsval \<Rightarrow> jsval \<Rightarrow> jsval \<Rightarrow> jsval \<Rightarrow> jsval \<Rightarrow> jsval \<Rightarrow> jsval \<Rightarrow> jsval \<Rightarrow>
   jsval \<Rightarrow> jsval \<Rightarrow> env \<Rightarrow> network \<Rightarrow> run" where
  "updateServerBuildConfiguration internal_id allocation_id database_limit allocation_limit
     memory disk cpu swap io add_allocations remove_allocations oom_disabled e net =
     (case validate (updateServerBuildConfiguration_checks internal_id allocation_id) Pending of
        Aborted p \<Rightarrow> aborted p e
      | Continues p0 \<Rightarrow>
          (let fl0 = [];
               fl1 = (if js_truthy database_limit \<and> js_typeof database_limit = ''number''
                      then fl0 @ [database_limit] else fl0);
               fl2 = (if js_truthy allocation_limit \<and> js_typeof allocation_limit = ''number''
                      then fl1 @ [allocation_limit] else fl1);
               obj0 = [(''allocation_id'', allocation_id), (''feature_limits'', JArr fl2)];
               limits = filterObject
                 [(''memory'', memory), (''disk'', disk), (''cpu'', cpu), (''swap'', swap),
                  (''io'', io)]
                 (\<lambda>val. js_typeof val = ''number'');
               obj1 = (if js_truthy memory \<or> js_truthy disk \<or> js_truthy cpu \<or> js_truthy swap \<or>
                          js_truthy io
                       then obj_set obj0 ''limits'' (JObj limits) else obj0);
               obj2 = (if has_length add_allocations
                       then obj_set obj1 ''add_allocations'' add_allocations else obj1);
               obj3 = (if has_length remove_allocations
                       then obj_set obj2 ''remove_allocations'' remove_allocations else obj2);
               obj = (if oom_disabled \<noteq> JUndefined \<and> js_typeof oom_disabled = ''boolean''
                      then obj_set obj3 ''oom_disabled'' oom_disabled else obj3)
           in case js_concat ''/api/application/servers/'' internal_id of
                None \<Rightarrow> aborted p0 e
              | Some s \<Rightarrow>
                  (let (c, hp) = patchRequest e net (s @ ''/build'') (JObj obj)
                   in \<lparr>promise =
                         then_catch hp
                           (\<lambda>response p. do {
                              d \<leftarrow> js_get response ''data'';
                              a \<leftarrow> js_get d ''attributes'';
                              Some (resolve (JObj [(''server'', a)]) p)
                            })
                           (\<lambda>error p. Some (reject error p))
                           p0,
                       calls = [c], console = [], env_after = e\<rparr>)))"

section \<open>index.js\<close>

text \<open>
  \<open>host.replace(/\/$/, '')\<close>: the pattern matches a \<open>/\<close> that is the last character of
  the input, and the first (and only) match is replaced by the empty string.
\<close>

fun cleanHost :: "string \<Rightarrow> string" where
  "cleanHost [] = []"
| "cleanHost [c] = (if c = CHR ''/'' then [] else [c])"
| "cleanHost (c # d # s) = c # cleanHost (d # s)"

text \<open>
  \<open>setApiKey\<close> takes two strings. It writes both variables of \<open>process.env\<close> and then
  calls the HTTP client itself. In the success handler \<open>res\<close> is the response object,
  compared with the number 404 by \<open>===\<close>; in the error handler \<open>err.status\<close> is compared
  with 403 by \<open>==\<close>.
\<close>

definition response_obj :: "response \<Rightarrow> jsval" where
  "response_obj r = JObj [(''status'', JNum (resp_status r)), (''data'', resp_data r)]"

definition strict_eq_num :: "jsval \<Rightarrow> int \<Rightarrow> bool" where
  "strict_eq_num v n = (v = JNum n)"

definition setApiKey :: "string \<Rightarrow> string \<Rightarrow> env \<Rightarrow> network \<Rightarrow> run" where
  "setApiKey host key e net =
     (let e' = e\<lparr>ADMIN_HOST := Some (cleanHost host), ADMIN_KEY := Some key\<rparr>;
          c = \<lparr>call_by = SetApiKeyProbe, call_method = GET,
               call_url = JStr (host @ ''/api/application/users''),
               call_body = None,
               call_config = JObj
                 [(''maxRedirects'', JNum 5),
                  (''headers'', JObj
                     [(''Authorization'', JStr (''Bearer '' @ key)),
                      (''Content-Type'', JStr ''application/json''),
                      (''Accept'', JStr ''Application/vnd.pterodactyl.v1+json'')]),
                  (''responseEncoding'', JStr ''utf8'')]\<rparr>
      in \<lparr>promise =
            (case net c of
               Fulfilled res \<Rightarrow>
                 if strict_eq_num (response_obj res) 404
                 then resolve (JObj [(''loggedIn'', JBool False),
                        (''message'', JStr ''404 Not found, please check you have provided a valid host.'')])
                        Pending
                 else resolve (JObj [(''loggedIn'', JBool True),
                        (''message'', JStr ''Successfully authenticated'')]) Pending
             | Failed err \<Rightarrow>
                 if err_status err = Some 403
                 then resolve (JObj [(''loggedIn'', JBool False),
                        (''message'', JStr ''403 Forbidden, please check your API key is valid'')])
                        Pending
                 else resolve (JObj [(''loggedIn'', JBool False),
                        (''message'', JStr (err_message err))]) Pending),
          calls = [c], console = [], env_after = e'\<rparr>)"

section \<open>Invocations of the exported functions\<close>

datatype invocation =
    GetAllServers
  | GetServerInformation jsval jsval
  | GetAllDatabases jsval
  | GetDatabase jsval jsval
  | CreateDatabase jsval jsval jsval jsval
  | CreateServer jsval jsval jsval jsval jsval jsval jsval jsval jsval jsval
                 jsval jsval jsval jsval jsval jsval jsval jsval jsval jsval
  | SuspendServer jsval
  | UnsuspendServer jsval
  | ReinstallServer jsval
  | RebuildServer jsval
  | DeleteServer jsval
  | UpdateServerDetails jsval jsval jsval jsval jsval
  | UpdateServerBuildConfiguration jsval jsval jsval jsval jsval jsval jsval jsval jsval jsval
                                   jsval jsval
  | SetApiKey string string

fun invoke :: "invocation \<Rightarrow> env \<Rightarrow> network \<Rightarrow> run" where
  "invoke GetAllServers = getAllServers"
| "invoke (GetServerInformation sid external) = getServerInformation sid external"
| "invoke (GetAllDatabases internal_id) = getAllDatabases internal_id"
| "invoke (GetDatabase internal_id database_id) = getDatabase internal_id database_id"
| "invoke (CreateDatabase internal_id database host remote) =
     createDatabase internal_id database host remote"
| "invoke (CreateServer a1 a2 a3 a4 a5 a6 a7 a8 a9 a10 a11 a12 a13 a14 a15 a16 a17 a18 a19 a20) =
     createServer a1 a2 a3 a4 a5 a6 a7 a8 a9 a10 a11 a12 a13 a14 a15 a16 a17 a18 a19 a20"
| "invoke (SuspendServer internal_id) = suspendServer internal_id"
| "invoke (UnsuspendServer internal_id) = unsuspendServer internal_id"
| "invoke (ReinstallServer internal_id) = reinstallServer internal_id"
| "invoke (RebuildServer internal_id) = rebuildServer internal_id"
| "invoke (DeleteServer internal_id) = deleteServer internal_id"
| "invoke (UpdateServerDetails internal_id name user external_id description) =
     updateServerDetails internal_id name user external_id description"
| "invoke (UpdateServerBuildConfiguration b1 b2 b3 b4 b5 b6 b7 b8 b9 b10 b11 b12) =
     updateServerBuildConfiguration b1 b2 b3 b4 b5 b6 b7 b8 b9 b10 b11 b12"
| "invoke (SetApiKey host key) = setApiKey host key"

section \<open>Auxiliary definitions for the properties\<close>

text \<open>A network that gives the same answer to every call, and an environment to test with.\<close>

definition answer :: "axios_outcome \<Rightarrow> network" where
  "answer out c = out"

definition example_env :: env where
  "example_env =
     \<lparr>ADMIN_HOST = Some ''https://panel.example.com'', ADMIN_KEY = Some ''secret''\<rparr>"

text \<open>
  The mapping from the client's answer to the state of a helper's promise, as the
  specification words it; the four helpers are compared with it below.
\<close>

definition settle :: "axios_outcome \<Rightarrow> promise_state" where
  "settle out =
     (case out of
        Fulfilled response \<Rightarrow>
          if resp_status response = 404
          then Rejected (Val (JStr ''404 Not found, check your host is correct''))
          else if resp_status response = 403
          then Rejected (Val (JStr ''403 Forbidden, please check your API key is correct, or that you setup permissions correctly''))
          else if resp_status response = 500
          then Rejected (Val (JStr ''500 Internal Server Error, check your server logs for the error''))
          else Resolved (JObj [(''data'', resp_data response)])
      | Failed error \<Rightarrow> Rejected (Val (JStr (err_message error))))"

text \<open>
  The validation checks of an invocation, in source order, each with its message. A
  check fails when its condition is true, passes when it is false, and throws when
  its condition has no value. \<open>failed_checks\<close> lists the messages of the checks that
  fail, and \<open>first_failure\<close> is the first check that does not pass. \<open>getAllServers\<close>,
  \<open>getServerInformation\<close> and \<open>setApiKey\<close> contain no check.
\<close>

fun checks_of :: "invocation \<Rightarrow> (bool option \<times> string) list" where
  "checks_of GetAllServers = []"
| "checks_of (GetServerInformation sid external) = []"
| "checks_of (GetAllDatabases internal_id) = internal_id_checks internal_id"
| "checks_of (GetDatabase internal_id database_id) = getDatabase_checks internal_id database_id"
| "checks_of (CreateDatabase internal_id database host remote) =
     createDatabase_checks internal_id database host remote"
| "checks_of (CreateServer a1 a2 a3 a4 a5 a6 a7 a8 a9 a10 a11 a12 a13 a14 a15 a16 a17 a18 a19 a20) =
     createServer_checks a1 a2 a3 a4 a5 a6 a7 a8 a9 a10 a11
       (default_to (JNum 0) a12) (default_to (JNum (- 1)) a13) (default_to (JNum 500) a14)
       (default_to (JArr []) a15) (default_to (JNum 0) a16) (default_to (JNum 0) a17)
       (default_to (JObj [(''locations'', JArr [JNum 1]), (''dedicated_ip'', JBool False),
                          (''port_range'', JArr [])]) a18)
       (default_to (JBool False) a19) (default_to (JBool True) a20)"
| "checks_of (SuspendServer internal_id) = internal_id_checks internal_id"
| "checks_of (UnsuspendServer internal_id) = internal_id_checks internal_id"
| "checks_of (ReinstallServer internal_id) = internal_id_checks internal_id"
| "checks_of (RebuildServer internal_id) = internal_id_checks internal_id"
| "checks_of (DeleteServer internal_id) = internal_id_checks internal_id"
| "checks_of (UpdateServerDetails internal_id name user external_id description) =
     updateServerDetails_checks internal_id name user"
| "checks_of (UpdateServerBuildConfiguration b1 b2 b3 b4 b5 b6 b7 b8 b9 b10 b11 b12) =
     updateServerBuildConfiguration_checks b1 b2"
| "checks_of (SetApiKey host key) = []"

definition failed_checks :: "invocation \<Rightarrow> string list" where
  "failed_checks iv = map snd (filter (\<lambda>(c, m). c = Some True) (checks_of iv))"

definition first_failure :: "(bool option \<times> string) list \<Rightarrow> (bool option \<times> string) option" where
  "first_failure cs = find (\<lambda>(c, m). c \<noteq> Some False) cs"

text \<open>
  The arguments an invocation passes to \<open>isNaN\<close> or concatenates into its path, in the
  order the function converts them. A value is convertible when its conversion to a
  string does not throw.
\<close>

definition convertible :: "jsval \<Rightarrow> bool" where
  "convertible v = (js_toString v \<noteq> None)"

fun coerced_args :: "invocation \<Rightarrow> jsval list" where
  "coerced_args (GetServerInformation sid external) = [external, sid]"
| "coerced_args (GetAllDatabases internal_id) = [internal_id]"
| "coerced_args (GetDatabase internal_id database_id) = [internal_id, database_id]"
| "coerced_args (CreateDatabase internal_id database host remote) = [internal_id]"
| "coerced_args (SuspendServer internal_id) = [internal_id]"
| "coerced_args (UnsuspendServer internal_id) = [internal_id]"
| "coerced_args (ReinstallServer internal_id) = [internal_id]"
| "coerced_args (RebuildServer internal_id) = [internal_id]"
| "coerced_args (DeleteServer internal_id) = [internal_id]"
| "coerced_args (UpdateServerDetails internal_id name user external_id description) =
     [internal_id]"
| "coerced_args (UpdateServerBuildConfiguration b1 b2 b3 b4 b5 b6 b7 b8 b9 b10 b11 b12) = [b1]"
| "coerced_args iv = []"

fun is_setApiKey :: "invocation \<Rightarrow> bool" where
  "is_setApiKey (SetApiKey host key) = True"
| "is_setApiKey iv = False"

text \<open>A call that was issued by one of the four helpers of \<open>request.js\<close>.\<close>

definition via_helper :: "http_call \<Rightarrow> bool" where
  "via_helper c =
     (call_by c \<in> {AdminGetRequest, AdminDeleteRequest, AdminPatchRequest, AdminPostRequest})"

text \<open>
  The shape \<open>getAllServers\<close> expects of a resolved response: \<open>response.data.data\<close> is
  an array with no \<open>undefined\<close> or \<open>null\<close> element and \<open>response.data.meta\<close> can be
  read from. \<open>property v k\<close> is \<open>v.k\<close> where that read does not throw.
\<close>

definition nullish :: "jsval \<Rightarrow> bool" where
  "nullish v = (v = JUndefined \<or> v = JNull)"

definition property :: "jsval \<Rightarrow> string \<Rightarrow> jsval" where
  "property v k = (case js_get v k of Some x \<Rightarrow> x | None \<Rightarrow> JUndefined)"

fun items :: "jsval \<Rightarrow> jsval list" where
  "items (JArr xs) = xs"
| "items v = []"

definition well_formed_listing :: "jsval \<Rightarrow> bool" where
  "well_formed_listing response =
     (\<not> nullish response \<and> \<not> nullish (property response ''data'') \<and>
      isArray (property (property response ''data'') ''data'') \<and>
      list_all (\<lambda>x. \<not> nullish x) (items (property (property response ''data'') ''data'')) \<and>
      \<not> nullish (property (property response ''data'') ''meta''))"

text \<open>The state of the promise when the validation block is left.\<close>

fun state_of :: "progress \<Rightarrow> promise_state" where
  "state_of (Aborted p) = p"
| "state_of (Continues p) = p"

section \<open>Conversions that throw\<close>

lemma js_isNaN_None: "js_isNaN v = None \<longleftrightarrow> js_toString v = None"
  by (cases v) simp_all

lemma js_concat_None: "js_concat s v = None \<longleftrightarrow> js_toString v = None"
  by (simp add: js_concat_def)

lemma not_convertible:
  "\<not> convertible v \<Longrightarrow> js_isNaN v = None"
  "\<not> convertible v \<Longrightarrow> js_concat s v = None"
  by (simp_all add: convertible_def js_isNaN_None js_concat_None)

lemma convertible_isNaN: "convertible v \<Longrightarrow> \<exists>b. js_isNaN v = Some b"
  using js_isNaN_None [of v] by (cases "js_isNaN v") (simp_all add: convertible_def)

lemma convertible_concat: "convertible v \<Longrightarrow> \<exists>t. js_concat s v = Some t"
  using js_concat_None [of s v] by (cases "js_concat s v") (simp_all add: convertible_def)

section \<open>Validation and the promise\<close>

lemma state_of_validate_Rejected: "state_of (validate cs (Rejected r)) = Rejected r"
  by (induction cs "Rejected r" rule: validate.induct) simp_all

lemma validate_fails_first:
  "first_failure cs = Some (Some True, m) \<Longrightarrow>
   state_of (validate cs Pending) = Rejected (Val (JStr m))"
  by (induction cs Pending rule: validate.induct)
    (auto simp: first_failure_def state_of_validate_Rejected split: if_splits)

lemma validate_throws_first:
  "first_failure cs = Some (None, m) \<Longrightarrow> validate cs Pending = Aborted Pending"
  by (induction cs Pending rule: validate.induct)
    (auto simp: first_failure_def split: if_splits)

lemma validate_Continues:
  "list_all (\<lambda>(c, m). c \<noteq> None) cs \<Longrightarrow> \<exists>p'. validate cs p = Continues p'"
  by (induction cs p rule: validate.induct) simp_all

lemma then_catch_Rejected:
  assumes "\<And>v. on_ok v (Rejected r) = None \<or> on_ok v (Rejected r) = Some (Rejected r)"
    and "\<And>x. on_err x (Rejected r) = None \<or> on_err x (Rejected r) = Some (Rejected r)"
  shows "then_catch hp on_ok on_err (Rejected r) = Rejected r"
proof (cases hp)
  case Pending
  then show ?thesis by (simp add: then_catch_def)
next
  case (Resolved v)
  with assms(1) [of v] assms(2) [of TypeError] show ?thesis
    by (auto simp: then_catch_def)
next
  case (Rejected x)
  with assms(2) [of x] show ?thesis
    by (auto simp: then_catch_def)
qed

text \<open>The handler shapes of the endpoint functions.\<close>

lemma then_catch_attributes_Rejected [simp]:
  "then_catch hp
     (\<lambda>response p. js_get response ''data'' \<bind> (\<lambda>d. js_get d ''attributes'' \<bind> (\<lambda>a. Some (resolve (f a) p))))
     (\<lambda>error p. Some (reject error p)) (Rejected r) = Rejected r"
  by (rule then_catch_Rejected) (simp_all split: Option.bind_splits)

lemma then_catch_message_Rejected [simp]:
  "then_catch hp (\<lambda>response p. Some (resolve v p)) (\<lambda>err p. Some (reject err p)) (Rejected r) =
     Rejected r"
  by (rule then_catch_Rejected) simp_all

lemma then_catch_databases_Rejected [simp]:
  "then_catch hp
     (\<lambda>response p. js_get response ''data'' \<bind> (\<lambda>d. js_get d ''data'' \<bind>
        (\<lambda>dd. js_map g dd \<bind> (\<lambda>databases. Some (resolve (f databases) p)))))
     (\<lambda>error p. Some (reject error p)) (Rejected r) = Rejected r"
  by (rule then_catch_Rejected) (simp_all split: Option.bind_splits)

lemma then_catch_includes_Rejected [simp]:
  "then_catch hp
     (\<lambda>response p. js_get response ''data'' \<bind> (\<lambda>d. js_get d ''attributes'' \<bind> (\<lambda>a. Some (resolve (f a) p))))
     (\<lambda>error p. js_includes error pat \<bind> (\<lambda>b. Some (if b then reject x p else reject error p)))
     (Rejected r) = Rejected r"
  by (rule then_catch_Rejected) (simp_all split: Option.bind_splits)

lemma getAllDatabases_promise:
  "state_of (validate (internal_id_checks internal_id) Pending) = Rejected r \<Longrightarrow>
   promise (getAllDatabases internal_id e net) = Rejected r"
  apply (cases "validate (internal_id_checks internal_id) Pending")
   apply (simp_all add: getAllDatabases_def aborted_def Let_def split_def
      split: option.split split del: if_split)
  done

lemma getDatabase_promise:
  "state_of (validate (getDatabase_checks internal_id database_id) Pending) = Rejected r \<Longrightarrow>
   promise (getDatabase internal_id database_id e net) = Rejected r"
  apply (cases "validate (getDatabase_checks internal_id database_id) Pending")
   apply (simp_all add: getDatabase_def aborted_def Let_def split_def
      split: option.split split del: if_split)
  done

lemma createDatabase_promise:
  "state_of (validate (createDatabase_checks internal_id database host remote) Pending) = Rejected r \<Longrightarrow>
   promise (createDatabase internal_id database host remote e net) = Rejected r"
  apply (cases "validate (createDatabase_checks internal_id database host remote) Pending")
   apply (simp_all add: createDatabase_def aborted_def Let_def split_def
      split: option.split split del: if_split)
  done

lemma suspendServer_promise:
  "state_of (validate (internal_id_checks internal_id) Pending) = Rejected r \<Longrightarrow>
   promise (suspendServer internal_id e net) = Rejected r"
  apply (cases "validate (internal_id_checks internal_id) Pending")
   apply (simp_all add: suspendServer_def aborted_def Let_def split_def
      split: option.split split del: if_split)
  done

lemma unsuspendServer_promise:
  "state_of (validate (internal_id_checks internal_id) Pending) = Rejected r \<Longrightarrow>
   promise (unsuspendServer internal_id e net) = Rejected r"
  apply (cases "validate (internal_id_checks internal_id) Pending")
   apply (simp_all add: unsuspendServer_def aborted_def Let_def split_def
      split: option.split split del: if_split)
  done

lemma reinstallServer_promise:
  "state_of (validate (internal_id_checks internal_id) Pending) = Rejected r \<Longrightarrow>
   promise (reinstallServer internal_id e net) = Rejected r"
  apply (cases "validate (internal_id_checks internal_id) Pending")
   apply (simp_all add: reinstallServer_def aborted_def Let_def split_def
      split: option.split split del: if_split)
  done

lemma rebuildServer_promise:
  "state_of (validate (internal_id_checks internal_id) Pending) = Rejected r \<Longrightarrow>
   promise (rebuildServer internal_id e net) = Rejected r"
  apply (cases "validate (internal_id_checks internal_id) Pending")
   apply (simp_all add: rebuildServer_def aborted_def Let_def split_def
      split: option.split split del: if_split)
  done

lemma deleteServer_promise:
  "state_of (validate (internal_id_checks internal_id) Pending) = Rejected r \<Longrightarrow>
   promise (deleteServer internal_id e net) = Rejected r"
  apply (cases "validate (internal_id_checks internal_id) Pending")
   apply (simp_all add: deleteServer_def aborted_def Let_def split_def
      split: option.split split del: if_split)
  done

lemma updateServerDetails_promise:
  "state_of (validate (updateServerDetails_checks internal_id name user) Pending) = Rejected r \<Longrightarrow>
   promise (updateServerDetails internal_id name user external_id description e net) = Rejected r"
  apply (cases "validate (updateServerDetails_checks internal_id name user) Pending")
   apply (simp_all add: updateServerDetails_def aborted_def Let_def split_def
      split: option.split split del: if_split)
  done

lemma updateServerBuildConfiguration_promise:
  "state_of (validate (updateServerBuildConfiguration_checks b1 b2) Pending) = Rejected r \<Longrightarrow>
   promise (updateServerBuildConfiguration b1 b2 b3 b4 b5 b6 b7 b8 b9 b10 b11 b12 e net) = Rejected r"
  apply (cases "validate (updateServerBuildConfiguration_checks b1 b2) Pending")
   apply (simp_all add: updateServerBuildConfiguration_def aborted_def Let_def split_def
      split: option.split split del: if_split)
  done

lemma createServer_promise:
  "state_of (validate (createServer_checks a1 a2 a3 a4 a5 a6 a7 a8 a9 a10 a11
       (default_to (JNum 0) a12) (default_to (JNum (- 1)) a13) (default_to (JNum 500) a14)
       (default_to (JArr []) a15) (default_to (JNum 0) a16) (default_to (JNum 0) a17)
       (default_to (JObj [(''locations'', JArr [JNum 1]), (''dedicated_ip'', JBool False),
                          (''port_range'', JArr [])]) a18)
       (default_to (JBool False) a19) (default_to (JBool True) a20)) Pending) = Rejected r \<Longrightarrow>
   promise (createServer a1 a2 a3 a4 a5 a6 a7 a8 a9 a10 a11 a12 a13 a14 a15 a16 a17 a18 a19 a20 e net) = Rejected r"
  apply (cases "validate (createServer_checks a1 a2 a3 a4 a5 a6 a7 a8 a9 a10 a11
       (default_to (JNum 0) a12) (default_to (JNum (- 1)) a13) (default_to (JNum 500) a14)
       (default_to (JArr []) a15) (default_to (JNum 0) a16) (default_to (JNum 0) a17)
       (default_to (JObj [(''locations'', JArr [JNum 1]), (''dedicated_ip'', JBool False),
                          (''port_range'', JArr [])]) a18)
       (default_to (JBool False) a19) (default_to (JBool True) a20)) Pending")
   apply (simp_all add: createServer_def aborted_def Let_def split_def
      split: option.split split del: if_split)
  done

lemma invoke_promise:
  "state_of (validate (checks_of iv) Pending) = Rejected r \<Longrightarrow>
   promise (invoke iv e net) = Rejected r"
proof (cases iv)
qed (simp_all add: getAllDatabases_promise getDatabase_promise createDatabase_promise
    suspendServer_promise unsuspendServer_promise reinstallServer_promise rebuildServer_promise
    deleteServer_promise updateServerDetails_promise updateServerBuildConfiguration_promise
    createServer_promise)

section \<open>The calls issued and the environment\<close>

lemma fst_helpers:
  "fst (getRequest e net path) =
     \<lparr>call_by = AdminGetRequest, call_method = GET,
      call_url = JStr (env_string (ADMIN_HOST e) @ path), call_body = None,
      call_config = JObj [(''headers'', headers (env_string (ADMIN_KEY e)))]\<rparr>"
  "fst (deleteRequest e net path) =
     \<lparr>call_by = AdminDeleteRequest, call_method = DELETE,
      call_url = JStr (env_string (ADMIN_HOST e) @ path), call_body = None,
      call_config = JObj [(''headers'', headers (env_string (ADMIN_KEY e)))]\<rparr>"
  "fst (patchRequest e net path data) =
     \<lparr>call_by = AdminPatchRequest, call_method = PATCH,
      call_url = JStr (env_string (ADMIN_HOST e) @ path), call_body = Some data,
      call_config = JObj [(''headers'', headers (env_string (ADMIN_KEY e)))]\<rparr>"
  "fst (postRequest e net path data) =
     \<lparr>call_by = AdminPostRequest, call_method = POST,
      call_url = JStr (env_string (ADMIN_HOST e) @ path),
      call_body = Some (if data = JUndefined then JObj [] else data),
      call_config = JObj [(''headers'', headers (env_string (ADMIN_KEY e))),
                          (''followRedirect'', JBool True), (''maxRedirects'', JNum 3)]\<rparr>"
  by (simp_all add: getRequest_def deleteRequest_def patchRequest_def postRequest_def Let_def)

lemma via_helper_fst:
  "via_helper (fst (getRequest e net path))"
  "via_helper (fst (deleteRequest e net path))"
  "via_helper (fst (patchRequest e net path data))"
  "via_helper (fst (postRequest e net path data))"
  by (simp_all add: via_helper_def fst_helpers)

lemma convertible_toString: "convertible v \<Longrightarrow> \<exists>t. js_toString v = Some t"
  by (simp add: convertible_def)

lemma isNaN_of_toString: "js_toString v = Some t \<Longrightarrow> \<exists>b. js_isNaN v = Some b"
  using js_isNaN_None [of v] by (cases "js_isNaN v") simp_all

lemma getAllDatabases_calls:
  "convertible internal_id \<Longrightarrow> \<exists>c. calls (getAllDatabases internal_id e net) = [c] \<and> via_helper c"
  "\<not> convertible internal_id \<Longrightarrow> calls (getAllDatabases internal_id e net) = []"
proof -
  assume "convertible internal_id"
  then obtain t where t: "js_toString internal_id = Some t"
    by (auto dest: convertible_toString)
  then obtain b where b: "js_isNaN internal_id = Some b"
    by (auto dest: isNaN_of_toString)
  show "\<exists>c. calls (getAllDatabases internal_id e net) = [c] \<and> via_helper c"
    by (simp add: getAllDatabases_def internal_id_checks_def t b js_concat_def Let_def split_def via_helper_fst
        split del: if_split)
next
  assume "\<not> convertible internal_id"
  then show "calls (getAllDatabases internal_id e net) = []"
    by (simp add: getAllDatabases_def internal_id_checks_def not_convertible aborted_def)
qed

lemma createDatabase_calls:
  "convertible internal_id \<Longrightarrow> \<exists>c. calls (createDatabase internal_id database host remote e net) = [c] \<and> via_helper c"
  "\<not> convertible internal_id \<Longrightarrow> calls (createDatabase internal_id database host remote e net) = []"
proof -
  assume "convertible internal_id"
  then obtain t where t: "js_toString internal_id = Some t"
    by (auto dest: convertible_toString)
  then obtain b where b: "js_isNaN internal_id = Some b"
    by (auto dest: isNaN_of_toString)
  show "\<exists>c. calls (createDatabase internal_id database host remote e net) = [c] \<and> via_helper c"
    by (simp add: createDatabase_def createDatabase_checks_def t b js_concat_def Let_def split_def via_helper_fst
        split del: if_split)
next
  assume "\<not> convertible internal_id"
  then show "calls (createDatabase internal_id database host remote e net) = []"
    by (simp add: createDatabase_def createDatabase_checks_def not_convertible aborted_def)
qed

lemma suspendServer_calls:
  "convertible internal_id \<Longrightarrow> \<exists>c. calls (suspendServer internal_id e net) = [c] \<and> via_helper c"
  "\<not> convertible internal_id \<Longrightarrow> calls (suspendServer internal_id e net) = []"
proof -
  assume "convertible internal_id"
  then obtain t where t: "js_toString internal_id = Some t"
    by (auto dest: convertible_toString)
  then obtain b where b: "js_isNaN internal_id = Some b"
    by (auto dest: isNaN_of_toString)
  show "\<exists>c. calls (suspendServer internal_id e net) = [c] \<and> via_helper c"
    by (simp add: suspendServer_def internal_id_checks_def t b js_concat_def Let_def split_def via_helper_fst
        split del: if_split)
next
  assume "\<not> convertible internal_id"
  then show "calls (suspendServer internal_id e net) = []"
    by (simp add: suspendServer_def internal_id_checks_def not_convertible aborted_def)
qed

lemma unsuspendServer_calls:
  "convertible internal_id \<Longrightarrow> \<exists>c. calls (unsuspendServer internal_id e net) = [c] \<and> via_helper c"
  "\<not> convertible internal_id \<Longrightarrow> calls (unsuspendServer internal_id e net) = []"
proof -
  assume "convertible internal_id"
  then obtain t where t: "js_toString internal_id = Some t"
    by (auto dest: convertible_toString)
  then obtain b where b: "js_isNaN internal_id = Some b"
    by (auto dest: isNaN_of_toString)
  show "\<exists>c. calls (unsuspendServer internal_id e net) = [c] \<and> via_helper c"
    by (simp add: unsuspendServer_def internal_id_checks_def t b js_concat_def Let_def split_def via_helper_fst
        split del: if_split)
next
  assume "\<not> convertible internal_id"
  then show "calls (unsuspendServer internal_id e net) = []"
    by (simp add: unsuspendServer_def internal_id_checks_def not_convertible aborted_def)
qed

lemma reinstallServer_calls:
  "convertible internal_id \<Longrightarrow> \<exists>c. calls (reinstallServer internal_id e net) = [c] \<and> via_helper c"
  "\<not> convertible internal_id \<Longrightarrow> calls (reinstallServer internal_id e net) = []"
proof -
  assume "convertible internal_id"
  then obtain t where t: "js_toString internal_id = Some t"
    by (auto dest: convertible_toString)
  then obtain b where b: "js_isNaN internal_id = Some b"
    by (auto dest: isNaN_of_toString)
  show "\<exists>c. calls (reinstallServer internal_id e net) = [c] \<and> via_helper c"
    by (simp add: reinstallServer_def internal_id_checks_def t b js_concat_def Let_def split_def via_helper_fst
        split del: if_split)
next
  assume "\<not> convertible internal_id"
  then show "calls (reinstallServer internal_id e net) = []"
    by (simp add: reinstallServer_def internal_id_checks_def not_convertible aborted_def)
qed

lemma rebuildServer_calls:
  "convertible internal_id \<Longrightarrow> \<exists>c. calls (rebuildServer internal_id e net) = [c] \<and> via_helper c"
  "\<not> convertible internal_id \<Longrightarrow> calls (rebuildServer internal_id e net) = []"
proof -
  assume "convertible internal_id"
  then obtain t where t: "js_toString internal_id = Some t"
    by (auto dest: convertible_toString)
  then obtain b where b: "js_isNaN internal_id = Some b"
    by (auto dest: isNaN_of_toString)
  show "\<exists>c. calls (rebuildServer internal_id e net) = [c] \<and> via_helper c"
    by (simp add: rebuildServer_def internal_id_checks_def t b js_concat_def Let_def split_def via_helper_fst
        split del: if_split)
next
  assume "\<not> convertible internal_id"
  then show "calls (rebuildServer internal_id e net) = []"
    by (simp add: rebuildServer_def internal_id_checks_def not_convertible aborted_def)
qed

lemma deleteServer_calls:
  "convertible internal_id \<Longrightarrow> \<exists>c. calls (deleteServer internal_id e net) = [c] \<and> via_helper c"
  "\<not> convertible internal_id \<Longrightarrow> calls (deleteServer internal_id e net) = []"
proof -
  assume "convertible internal_id"
  then obtain t where t: "js_toString internal_id = Some t"
    by (auto dest: convertible_toString)
  then obtain b where b: "js_isNaN internal_id = Some b"
    by (auto dest: isNaN_of_toString)
  show "\<exists>c. calls (deleteServer internal_id e net) = [c] \<and> via_helper c"
    by (simp add: deleteServer_def internal_id_checks_def t b js_concat_def Let_def split_def via_helper_fst
        split del: if_split)
next
  assume "\<not> convertible internal_id"
  then show "calls (deleteServer internal_id e net) = []"
    by (simp add: deleteServer_def internal_id_checks_def not_convertible aborted_def)
qed

lemma updateServerDetails_calls:
  "convertible internal_id \<Longrightarrow> \<exists>c. calls (updateServerDetails internal_id name user external_id description e net) = [c] \<and> via_helper c"
  "\<not> convertible internal_id \<Longrightarrow> calls (updateServerDetails internal_id name user external_id description e net) = []"
proof -
  assume "convertible internal_id"
  then obtain t where t: "js_toString internal_id = Some t"
    by (auto dest: convertible_toString)
  then obtain b where b: "js_isNaN internal_id = Some b"
    by (auto dest: isNaN_of_toString)
  show "\<exists>c. calls (updateServerDetails internal_id name user external_id description e net) = [c] \<and> via_helper c"
    by (simp add: updateServerDetails_def updateServerDetails_checks_def t b js_concat_def Let_def split_def via_helper_fst
        split del: if_split)
next
  assume "\<not> convertible internal_id"
  then show "calls (updateServerDetails internal_id name user external_id description e net) = []"
    by (simp add: updateServerDetails_def updateServerDetails_checks_def not_convertible aborted_def)
qed

lemma updateServerBuildConfiguration_calls:
  "convertible b1 \<Longrightarrow> \<exists>c. calls (updateServerBuildConfiguration b1 b2 b3 b4 b5 b6 b7 b8 b9 b10 b11 b12 e net) = [c] \<and> via_helper c"
  "\<not> convertible b1 \<Longrightarrow> calls (updateServerBuildConfiguration b1 b2 b3 b4 b5 b6 b7 b8 b9 b10 b11 b12 e net) = []"
proof -
  assume "convertible b1"
  then obtain t where t: "js_toString b1 = Some t"
    by (auto dest: convertible_toString)
  then obtain b where b: "js_isNaN b1 = Some b"
    by (auto dest: isNaN_of_toString)
  show "\<exists>c. calls (updateServerBuildConfiguration b1 b2 b3 b4 b5 b6 b7 b8 b9 b10 b11 b12 e net) = [c] \<and> via_helper c"
    by (simp add: updateServerBuildConfiguration_def updateServerBuildConfiguration_checks_def t b js_concat_def Let_def split_def via_helper_fst
        split del: if_split)
next
  assume "\<not> convertible b1"
  then show "calls (updateServerBuildConfiguration b1 b2 b3 b4 b5 b6 b7 b8 b9 b10 b11 b12 e net) = []"
    by (simp add: updateServerBuildConfiguration_def updateServerBuildConfiguration_checks_def not_convertible aborted_def)
qed

lemma getDatabase_calls:
  "convertible internal_id \<and> convertible database_id \<Longrightarrow>
     \<exists>c. calls (getDatabase internal_id database_id e net) = [c] \<and> via_helper c"
  "\<not> (convertible internal_id \<and> convertible database_id) \<Longrightarrow>
     calls (getDatabase internal_id database_id e net) = []"
proof -
  assume "convertible internal_id \<and> convertible database_id"
  then obtain t u where t: "js_toString internal_id = Some t" "js_toString database_id = Some u"
    unfolding convertible_def by auto
  then obtain b d where b: "js_isNaN internal_id = Some b" "js_isNaN database_id = Some d"
    using isNaN_of_toString [of internal_id t] isNaN_of_toString [of database_id u] by auto
  show "\<exists>c. calls (getDatabase internal_id database_id e net) = [c] \<and> via_helper c"
    by (simp add: getDatabase_def getDatabase_checks_def t b js_concat_def Let_def split_def
        via_helper_fst split del: if_split)
next
  assume n: "\<not> (convertible internal_id \<and> convertible database_id)"
  show "calls (getDatabase internal_id database_id e net) = []"
  proof (cases "convertible internal_id")
    case False
    then show ?thesis
      by (simp add: getDatabase_def getDatabase_checks_def not_convertible aborted_def)
  next
    case True
    then obtain t where t: "js_toString internal_id = Some t"
      by (auto dest: convertible_toString)
    then obtain b where b: "js_isNaN internal_id = Some b"
      by (auto dest: isNaN_of_toString)
    from True n have "\<not> convertible database_id" by simp
    then show ?thesis
      by (simp add: getDatabase_def getDatabase_checks_def b not_convertible aborted_def)
  qed
qed

lemma getServerInformation_calls:
  "convertible external \<and> convertible sid \<Longrightarrow>
     \<exists>c. calls (getServerInformation sid external e net) = [c] \<and> via_helper c"
  "\<not> (convertible external \<and> convertible sid) \<Longrightarrow>
     calls (getServerInformation sid external e net) = []"
proof -
  assume "convertible external \<and> convertible sid"
  then obtain t u where t: "js_toString external = Some t" "js_toString sid = Some u"
    unfolding convertible_def by auto
  show "\<exists>c. calls (getServerInformation sid external e net) = [c] \<and> via_helper c"
    by (simp add: getServerInformation_def t js_concat_def Let_def split_def via_helper_fst)
next
  assume n: "\<not> (convertible external \<and> convertible sid)"
  show "calls (getServerInformation sid external e net) = []"
  proof (cases "convertible external")
    case False
    then have "external \<noteq> JUndefined" by (auto simp: convertible_def)
    with False show ?thesis
      by (simp add: getServerInformation_def not_convertible aborted_def)
  next
    case True
    then obtain t where t: "js_toString external = Some t"
      by (auto dest: convertible_toString)
    from True n have "\<not> convertible sid" by simp
    then show ?thesis
      by (simp add: getServerInformation_def t js_concat_def Let_def aborted_def
          convertible_def)
  qed
qed

lemma createServer_calls:
  "\<exists>c. calls (createServer a1 a2 a3 a4 a5 a6 a7 a8 a9 a10 a11 a12 a13 a14 a15 a16 a17 a18 a19
     a20 e net) = [c] \<and> via_helper c"
proof -
  let ?cs = "createServer_checks a1 a2 a3 a4 a5 a6 a7 a8 a9 a10 a11
       (default_to (JNum 0) a12) (default_to (JNum (- 1)) a13) (default_to (JNum 500) a14)
       (default_to (JArr []) a15) (default_to (JNum 0) a16) (default_to (JNum 0) a17)
       (default_to (JObj [(''locations'', JArr [JNum 1]), (''dedicated_ip'', JBool False),
                          (''port_range'', JArr [])]) a18)
       (default_to (JBool False) a19) (default_to (JBool True) a20)"
  have "list_all (\<lambda>(c, m). c \<noteq> None) ?cs"
    by (simp add: createServer_checks_def)
  then obtain p' where "validate ?cs Pending = Continues p'"
    using validate_Continues by blast
  then show ?thesis
    by (simp add: createServer_def Let_def split_def via_helper_fst split del: if_split)
qed

lemma getAllServers_calls: "\<exists>c. calls (getAllServers e net) = [c] \<and> via_helper c"
  by (simp add: getAllServers_def Let_def split_def via_helper_fst)

lemma calls_setApiKey:
  "\<exists>c. calls (setApiKey host key e net) = [c] \<and> call_by c = SetApiKeyProbe"
  by (simp add: setApiKey_def Let_def)

lemma aborted_endpoints:
  "validate (internal_id_checks internal_id) Pending = Aborted p \<Longrightarrow>
     promise (getAllDatabases internal_id e net) = reject TypeError p"
  "validate (getDatabase_checks internal_id database_id) Pending = Aborted p \<Longrightarrow>
     promise (getDatabase internal_id database_id e net) = reject TypeError p"
  "validate (createDatabase_checks internal_id database host remote) Pending = Aborted p \<Longrightarrow>
     promise (createDatabase internal_id database host remote e net) = reject TypeError p"
  "validate (internal_id_checks internal_id) Pending = Aborted p \<Longrightarrow>
     promise (suspendServer internal_id e net) = reject TypeError p"
  "validate (internal_id_checks internal_id) Pending = Aborted p \<Longrightarrow>
     promise (unsuspendServer internal_id e net) = reject TypeError p"
  "validate (internal_id_checks internal_id) Pending = Aborted p \<Longrightarrow>
     promise (reinstallServer internal_id e net) = reject TypeError p"
  "validate (internal_id_checks internal_id) Pending = Aborted p \<Longrightarrow>
     promise (rebuildServer internal_id e net) = reject TypeError p"
  "validate (internal_id_checks internal_id) Pending = Aborted p \<Longrightarrow>
     promise (deleteServer internal_id e net) = reject TypeError p"
  "validate (updateServerDetails_checks internal_id name user) Pending = Aborted p \<Longrightarrow>
     promise (updateServerDetails internal_id name user external_id description e net) =
       reject TypeError p"
  "validate (updateServerBuildConfiguration_checks b1 b2) Pending = Aborted p \<Longrightarrow>
     promise (updateServerBuildConfiguration b1 b2 b3 b4 b5 b6 b7 b8 b9 b10 b11 b12 e net) =
       reject TypeError p"
  by (simp_all add: getAllDatabases_def getDatabase_def createDatabase_def suspendServer_def
      unsuspendServer_def reinstallServer_def rebuildServer_def deleteServer_def
      updateServerDetails_def updateServerBuildConfiguration_def aborted_def)

lemma createServer_checks_total:
  "list_all (\<lambda>(c, m). c \<noteq> None)
     (createServer_checks a1 a2 a3 a4 a5 a6 a7 a8 a9 a10 a11 a12 a13 a14 a15 a16 a17 a18 a19 a20)"
  by (simp add: createServer_checks_def)

lemma validate_not_Aborted:
  "list_all (\<lambda>(c, m). c \<noteq> None) cs \<Longrightarrow> validate cs p \<noteq> Aborted q"
  using validate_Continues [of cs p] by auto

lemma invoke_aborted:
  "validate (checks_of iv) Pending = Aborted p \<Longrightarrow>
   promise (invoke iv e net) = reject TypeError p"
proof (cases iv)
  case (CreateServer a1 a2 a3 a4 a5 a6 a7 a8 a9 a10 a11 a12 a13 a14 a15 a16 a17 a18 a19 a20)
  assume "validate (checks_of iv) Pending = Aborted p"
  with CreateServer show ?thesis
    using validate_not_Aborted [OF createServer_checks_total] by simp
qed (simp_all add: aborted_endpoints)

lemma no_None_first_failure:
  "list_all (\<lambda>(c, m). c \<noteq> None) cs \<Longrightarrow>
   map snd (filter (\<lambda>(c, m). c = Some True) cs) = m # ms \<Longrightarrow>
   first_failure cs = Some (Some True, m)"
  by (induction cs) (auto simp: first_failure_def)

lemma convertible_checks:
  "list_all convertible (coerced_args iv) \<Longrightarrow> list_all (\<lambda>(c, m). c \<noteq> None) (checks_of iv)"
  by (cases iv)
    (auto simp: internal_id_checks_def getDatabase_checks_def createDatabase_checks_def
      updateServerDetails_checks_def updateServerBuildConfiguration_checks_def
      createServer_checks_total js_isNaN_None convertible_def simp del: not_None_eq)

lemma invoke_calls:
  "if list_all convertible (coerced_args iv)
   then \<exists>c. calls (invoke iv e net) = [c] \<and> via_helper c = (\<not> is_setApiKey iv)
   else calls (invoke iv e net) = []"
proof (cases iv)
  case GetAllServers
  then show ?thesis using getAllServers_calls [of e net] by simp
next
  case (GetServerInformation sid external)
  then show ?thesis
    using getServerInformation_calls [of external sid e net] by auto
next
  case (GetAllDatabases internal_id)
  then show ?thesis using getAllDatabases_calls [of internal_id e net] by auto
next
  case (GetDatabase internal_id database_id)
  then show ?thesis using getDatabase_calls [of internal_id database_id e net] by auto
next
  case (CreateDatabase internal_id database host remote)
  then show ?thesis
    using createDatabase_calls [of internal_id database host remote e net] by auto
next
  case (CreateServer a1 a2 a3 a4 a5 a6 a7 a8 a9 a10 a11 a12 a13 a14 a15 a16 a17 a18 a19 a20)
  then show ?thesis
    using createServer_calls [of a1 a2 a3 a4 a5 a6 a7 a8 a9 a10 a11 a12 a13 a14 a15 a16 a17
        a18 a19 a20 e net]
    by simp
next
  case (SuspendServer internal_id)
  then show ?thesis using suspendServer_calls [of internal_id e net] by auto
next
  case (UnsuspendServer internal_id)
  then show ?thesis using unsuspendServer_calls [of internal_id e net] by auto
next
  case (ReinstallServer internal_id)
  then show ?thesis using reinstallServer_calls [of internal_id e net] by auto
next
  case (RebuildServer internal_id)
  then show ?thesis using rebuildServer_calls [of internal_id e net] by auto
next
  case (DeleteServer internal_id)
  then show ?thesis using deleteServer_calls [of internal_id e net] by auto
next
  case (UpdateServerDetails internal_id name user external_id description)
  then show ?thesis
    using updateServerDetails_calls [of internal_id name user external_id description e net]
    by auto
next
  case (UpdateServerBuildConfiguration b1 b2 b3 b4 b5 b6 b7 b8 b9 b10 b11 b12)
  then show ?thesis
    using updateServerBuildConfiguration_calls [of b1 b2 b3 b4 b5 b6 b7 b8 b9 b10 b11 b12 e net]
    by auto
next
  case (SetApiKey host key)
  then show ?thesis
    using calls_setApiKey [of host key e net] by (auto simp: via_helper_def)
qed

lemma env_after_endpoints:
  "env_after (getAllServers e net) = e"
  "env_after (getServerInformation sid external e net) = e"
  "env_after (getAllDatabases internal_id e net) = e"
  "env_after (getDatabase internal_id database_id e net) = e"
  "env_after (createDatabase internal_id database host remote e net) = e"
  "env_after (createServer a1 a2 a3 a4 a5 a6 a7 a8 a9 a10 a11 a12 a13 a14 a15 a16 a17
     a18 a19 a20 e net) = e"
  "env_after (suspendServer internal_id e net) = e"
  "env_after (unsuspendServer internal_id e net) = e"
  "env_after (reinstallServer internal_id e net) = e"
  "env_after (rebuildServer internal_id e net) = e"
  "env_after (deleteServer internal_id e net) = e"
  "env_after (updateServerDetails internal_id name user external_id description e net) = e"
  "env_after (updateServerBuildConfiguration b1 b2 b3 b4 b5 b6 b7 b8 b9 b10 b11 b12 e net) = e"
  unfolding getAllServers_def getServerInformation_def getAllDatabases_def getDatabase_def
    createDatabase_def createServer_def suspendServer_def unsuspendServer_def
    reinstallServer_def rebuildServer_def deleteServer_def updateServerDetails_def
    updateServerBuildConfiguration_def Let_def split_def aborted_def
  by (simp_all split: progress.split option.split split del: if_split)

section \<open>The claims about validation and requests\<close>

lemma snd_helpers:
  "snd (getRequest e net path) = settle (net (fst (getRequest e net path)))"
  "snd (deleteRequest e net path) = settle (net (fst (deleteRequest e net path)))"
  "snd (patchRequest e net path data) = settle (net (fst (patchRequest e net path data)))"
  "snd (postRequest e net path data) = settle (net (fst (postRequest e net path data)))"
  by (simp_all add: getRequest_def deleteRequest_def patchRequest_def postRequest_def Let_def
      settle_def split: axios_outcome.split)

text \<open>
  C2, as amended. Take the first validation check of an invocation, in source order,
  that does not pass. If it fails, the returned promise is rejected with the message of
  that check; if evaluating it throws (\<open>isNaN\<close> of an object whose own \<open>toString\<close> is
  not callable), the promise is rejected with the \<open>TypeError\<close>. The message of a later
  failing check is never delivered.
\<close>

theorem first_failing_check_rejects:
  "(first_failure (checks_of iv) = Some (Some True, m) \<longrightarrow>
      promise (invoke iv e net) = Rejected (Val (JStr m))) \<and>
   (first_failure (checks_of iv) = Some (None, m) \<longrightarrow>
      promise (invoke iv e net) = Rejected TypeError)"
proof (intro conjI impI)
  assume "first_failure (checks_of iv) = Some (Some True, m)"
  then have "state_of (validate (checks_of iv) Pending) = Rejected (Val (JStr m))"
    by (rule validate_fails_first)
  then show "promise (invoke iv e net) = Rejected (Val (JStr m))"
    by (rule invoke_promise)
next
  assume "first_failure (checks_of iv) = Some (None, m)"
  then have "validate (checks_of iv) Pending = Aborted Pending"
    by (rule validate_throws_first)
  then have "promise (invoke iv e net) = reject TypeError Pending"
    by (rule invoke_aborted)
  then show "promise (invoke iv e net) = Rejected TypeError" by simp
qed

theorem first_failing_check_rejects_witness:
  "first_failure (checks_of (CreateDatabase (JNum 1) (JStr '''') (JNum 0) (JStr ''%''))) =
     Some (Some True, ''Database name must be a string'') \<and>
   promise (invoke (CreateDatabase (JNum 1) (JStr '''') (JNum 0) (JStr ''%'')) example_env
      (answer (Fulfilled \<lparr>resp_status = 200, resp_data = JNull\<rparr>))) =
     Rejected (Val (JStr ''Database name must be a string'')) \<and>
   first_failure (checks_of (GetAllDatabases (JObj [(''toString'', JNum 1)]))) =
     Some (None, ''Internal ID must be a number'') \<and>
   promise (invoke (GetAllDatabases (JObj [(''toString'', JNum 1)])) example_env
      (answer (Fulfilled \<lparr>resp_status = 200, resp_data = JNull\<rparr>))) = Rejected TypeError"
proof -
  have f: "first_failure (checks_of (CreateDatabase (JNum 1) (JStr '''') (JNum 0) (JStr ''%''))) =
     Some (Some True, ''Database name must be a string'')"
    by (simp add: first_failure_def createDatabase_checks_def)
  have g: "first_failure (checks_of (GetAllDatabases (JObj [(''toString'', JNum 1)]))) =
     Some (None, ''Internal ID must be a number'')"
    by (simp add: first_failure_def internal_id_checks_def)
  from first_failing_check_rejects [of "CreateDatabase (JNum 1) (JStr '''') (JNum 0) (JStr ''%'')"
      "''Database name must be a string''" example_env
      "answer (Fulfilled \<lparr>resp_status = 200, resp_data = JNull\<rparr>)"]
    first_failing_check_rejects [of "GetAllDatabases (JObj [(''toString'', JNum 1)])"
      "''Internal ID must be a number''" example_env
      "answer (Fulfilled \<lparr>resp_status = 200, resp_data = JNull\<rparr>)"]
    f g
  show ?thesis by simp
qed

text \<open>
  C2 as stated fails: in \<open>getDatabase('abc', 'xyz')\<close> the argument \<open>database_id\<close> fails
  its check, but the promise is rejected with the message for \<open>internal_id\<close>.
\<close>

theorem getDatabase_second_message_lost:
  "getDatabase_checks (JStr ''abc'') (JStr ''xyz'') =
     [(Some True, ''Internal ID must be a number''),
      (Some True, ''Database ID must be a number'')] \<and>
   promise (getDatabase (JStr ''abc'') (JStr ''xyz'') example_env
      (answer (Fulfilled \<lparr>resp_status = 200, resp_data = JNull\<rparr>))) =
     Rejected (Val (JStr ''Internal ID must be a number''))"
proof -
  have a: "js_isNaN (JStr ''abc'') = Some True" by code_simp
  have b: "js_isNaN (JStr ''xyz'') = Some True" by code_simp
  have c: "getDatabase_checks (JStr ''abc'') (JStr ''xyz'') =
     [(Some True, ''Internal ID must be a number''),
      (Some True, ''Database ID must be a number'')]"
    using a b by (simp add: getDatabase_checks_def del: js_isNaN.simps)
  have "state_of (validate (getDatabase_checks (JStr ''abc'') (JStr ''xyz'')) Pending) =
      Rejected (Val (JStr ''Internal ID must be a number''))"
    by (simp add: c)
  then have "promise (getDatabase (JStr ''abc'') (JStr ''xyz'') example_env
      (answer (Fulfilled \<lparr>resp_status = 200, resp_data = JNull\<rparr>))) =
     Rejected (Val (JStr ''Internal ID must be a number''))"
    by (rule getDatabase_promise)
  with c show ?thesis by (rule conjI)
qed

text \<open>
  C8, as amended. When a validation check of an invocation fails and every argument that
  the function passes to \<open>isNaN\<close> or concatenates into the path converts without
  throwing, the promise is rejected with the message of the first failing check and
  exactly one HTTP call is still issued, through a request helper. When one of those
  conversions throws, the executor stops there and no request is issued.
\<close>

theorem invalid_argument_still_sends_request:
  "(list_all convertible (coerced_args iv) \<and> failed_checks iv = m # ms \<longrightarrow>
      promise (invoke iv e net) = Rejected (Val (JStr m)) \<and>
      (\<exists>c. calls (invoke iv e net) = [c] \<and> via_helper c)) \<and>
   (\<not> list_all convertible (coerced_args iv) \<longrightarrow> calls (invoke iv e net) = [])"
proof (intro conjI impI)
  assume a: "list_all convertible (coerced_args iv) \<and> failed_checks iv = m # ms"
  then have "list_all (\<lambda>(c, m). c \<noteq> None) (checks_of iv)"
    by (blast intro: convertible_checks)
  with a have "first_failure (checks_of iv) = Some (Some True, m)"
    unfolding failed_checks_def by (simp add: no_None_first_failure)
  then have "state_of (validate (checks_of iv) Pending) = Rejected (Val (JStr m))"
    by (rule validate_fails_first)
  then show "promise (invoke iv e net) = Rejected (Val (JStr m))"
    by (rule invoke_promise)
  from a have "\<not> is_setApiKey iv"
    by (cases iv) (simp_all add: failed_checks_def)
  with a invoke_calls [of iv e net] show "\<exists>c. calls (invoke iv e net) = [c] \<and> via_helper c"
    by auto
next
  assume "\<not> list_all convertible (coerced_args iv)"
  with invoke_calls [of iv e net] show "calls (invoke iv e net) = []" by simp
qed

theorem invalid_argument_still_sends_request_witness:
  "failed_checks (GetAllDatabases (JStr ''abc'')) = [''Internal ID must be a number''] \<and>
   promise (invoke (GetAllDatabases (JStr ''abc'')) example_env
      (answer (Fulfilled \<lparr>resp_status = 200, resp_data = JNull\<rparr>))) =
     Rejected (Val (JStr ''Internal ID must be a number'')) \<and>
   map call_url (calls (invoke (GetAllDatabases (JStr ''abc'')) example_env
      (answer (Fulfilled \<lparr>resp_status = 200, resp_data = JNull\<rparr>)))) =
     [JStr ''https://panel.example.com/api/application/servers/abc/databases''] \<and>
   calls (invoke (GetAllDatabases (JObj [(''toString'', JNum 1)])) example_env
      (answer (Fulfilled \<lparr>resp_status = 200, resp_data = JNull\<rparr>))) = []"
proof -
  have a: "js_isNaN (JStr ''abc'') = Some True" by code_simp
  have f: "failed_checks (GetAllDatabases (JStr ''abc'')) = [''Internal ID must be a number'']"
    using a by (simp add: failed_checks_def internal_id_checks_def del: js_isNaN.simps)
  have c: "list_all convertible (coerced_args (GetAllDatabases (JStr ''abc'')))"
    by (simp add: convertible_def)
  have n: "\<not> list_all convertible (coerced_args (GetAllDatabases (JObj [(''toString'', JNum 1)])))"
    by (simp add: convertible_def)
  have u: "map call_url (calls (invoke (GetAllDatabases (JStr ''abc'')) example_env
      (answer (Fulfilled \<lparr>resp_status = 200, resp_data = JNull\<rparr>)))) =
     [JStr ''https://panel.example.com/api/application/servers/abc/databases'']"
    using a
    by (simp add: getAllDatabases_def internal_id_checks_def js_concat_def Let_def split_def
        fst_helpers example_env_def env_string_def del: js_isNaN.simps)
  from invalid_argument_still_sends_request [of "GetAllDatabases (JStr ''abc'')"
      "''Internal ID must be a number''" "[]" example_env
      "answer (Fulfilled \<lparr>resp_status = 200, resp_data = JNull\<rparr>)"]
    invalid_argument_still_sends_request [of "GetAllDatabases (JObj [(''toString'', JNum 1)])"
      "''x''" "[]" example_env "answer (Fulfilled \<lparr>resp_status = 200, resp_data = JNull\<rparr>)"]
    f c n u
  show ?thesis by simp
qed

text \<open>
  C8 as stated fails: in \<open>getDatabase('abc', {toString: 1})\<close> the check of
  \<open>internal_id\<close> fails and its message is delivered, but \<open>isNaN(database_id)\<close> then
  throws and the request is never sent.
\<close>

theorem throwing_check_suppresses_request:
  "promise (getDatabase (JStr ''abc'') (JObj [(''toString'', JNum 1)]) example_env
      (answer (Fulfilled \<lparr>resp_status = 200, resp_data = JNull\<rparr>))) =
     Rejected (Val (JStr ''Internal ID must be a number'')) \<and>
   calls (getDatabase (JStr ''abc'') (JObj [(''toString'', JNum 1)]) example_env
      (answer (Fulfilled \<lparr>resp_status = 200, resp_data = JNull\<rparr>))) = []"
proof -
  have a: "js_isNaN (JStr ''abc'') = Some True" by code_simp
  have b: "js_isNaN (JObj [(''toString'', JNum 1)]) = None" by simp
  show ?thesis
    by (simp add: getDatabase_def getDatabase_checks_def aborted_def a b del: js_isNaN.simps)
qed




section \<open>The request helpers\<close>

text \<open>
  C1. Each of the four helpers \<open>getRequest\<close>, \<open>deleteRequest\<close>, \<open>patchRequest\<close> and
  \<open>postRequest\<close> maps the answer to its call as follows: a response with status 404,
  403 or 500 rejects the promise with the message of that status, any other response
  resolves it with \<open>{data: response.data}\<close>, and an error of the client rejects it with
  the error's message.
\<close>

theorem request_helpers_status_mapping:
  assumes "h \<in> {getRequest e net path, deleteRequest e net path,
                 patchRequest e net path data, postRequest e net path data}"
  shows "case net (fst h) of
           Fulfilled response \<Rightarrow>
             snd h =
               (if resp_status response = 404
                then Rejected (Val (JStr ''404 Not found, check your host is correct''))
                else if resp_status response = 403
                then Rejected (Val (JStr ''403 Forbidden, please check your API key is correct, or that you setup permissions correctly''))
                else if resp_status response = 500
                then Rejected (Val (JStr ''500 Internal Server Error, check your server logs for the error''))
                else Resolved (JObj [(''data'', resp_data response)]))
         | Failed error \<Rightarrow> snd h = Rejected (Val (JStr (err_message error)))"
proof -
  from assms consider "h = getRequest e net path" | "h = deleteRequest e net path"
    | "h = patchRequest e net path data" | "h = postRequest e net path data"
    by blast
  then have "snd h = settle (net (fst h))"
  proof cases
    case 1 then show ?thesis by (simp only: snd_helpers)
  next
    case 2 then show ?thesis by (simp only: snd_helpers)
  next
    case 3 then show ?thesis by (simp only: snd_helpers)
  next
    case 4 then show ?thesis by (simp only: snd_helpers)
  qed
  then show ?thesis
    by (cases "net (fst h)") (simp_all add: settle_def)
qed

theorem request_helpers_status_mapping_witness:
  "snd (getRequest example_env (answer (Fulfilled \<lparr>resp_status = 404, resp_data = JNull\<rparr>))
         ''/api/application/servers'') =
     Rejected (Val (JStr ''404 Not found, check your host is correct'')) \<and>
   snd (postRequest example_env (answer (Failed \<lparr>err_status = None, err_message = ''timeout''\<rparr>))
         ''/api/application/servers'' (JObj [])) =
     Rejected (Val (JStr ''timeout''))"
proof -
  let ?p = "''/api/application/servers''"
  let ?n1 = "answer (Fulfilled \<lparr>resp_status = 404, resp_data = JNull\<rparr>)"
  let ?n2 = "answer (Failed \<lparr>err_status = None, err_message = ''timeout''\<rparr>)"
  have 1: "getRequest example_env ?n1 ?p \<in> {getRequest example_env ?n1 ?p,
      deleteRequest example_env ?n1 ?p, patchRequest example_env ?n1 ?p (JObj []),
      postRequest example_env ?n1 ?p (JObj [])}"
    by (rule insertI1)
  have 2: "postRequest example_env ?n2 ?p (JObj []) \<in> {getRequest example_env ?n2 ?p,
      deleteRequest example_env ?n2 ?p, patchRequest example_env ?n2 ?p (JObj []),
      postRequest example_env ?n2 ?p (JObj [])}"
    by (intro insertI1 insertI2)
  from request_helpers_status_mapping [OF 1]
  have a: "snd (getRequest example_env ?n1 ?p) =
      Rejected (Val (JStr ''404 Not found, check your host is correct''))"
    by (simp add: answer_def)
  from request_helpers_status_mapping [OF 2]
  have b: "snd (postRequest example_env ?n2 ?p (JObj [])) = Rejected (Val (JStr ''timeout''))"
    by (simp add: answer_def)
  from a b show ?thesis by (rule conjI)
qed

section \<open>The stored credentials\<close>

lemma env_after_setApiKey:
  "env_after (setApiKey host key e net) =
     e\<lparr>ADMIN_HOST := Some (cleanHost host), ADMIN_KEY := Some key\<rparr>"
  by (simp add: setApiKey_def Let_def)

text \<open>
  C5. No endpoint function changes the stored credentials: after any invocation other
  than \<open>setApiKey\<close> the variables \<open>ADMIN_HOST\<close> and \<open>ADMIN_KEY\<close> are what they were
  before. \<open>setApiKey\<close> writes both.
\<close>

theorem credentials_frame:
  "(\<not> is_setApiKey iv \<longrightarrow> env_after (invoke iv e net) = e) \<and>
   env_after (invoke (SetApiKey host key) e net) =
     e\<lparr>ADMIN_HOST := Some (cleanHost host), ADMIN_KEY := Some key\<rparr>"
  by (cases iv) (simp_all add: env_after_endpoints env_after_setApiKey)

theorem credentials_frame_witness:
  "env_after (invoke (DeleteServer (JNum 3)) example_env
      (answer (Fulfilled \<lparr>resp_status = 204, resp_data = JStr ''''\<rparr>))) = example_env \<and>
   env_after (invoke (SetApiKey ''https://panel.example.com/'' ''k2'') example_env
      (answer (Fulfilled \<lparr>resp_status = 200, resp_data = JNull\<rparr>))) =
     \<lparr>ADMIN_HOST = Some ''https://panel.example.com'', ADMIN_KEY = Some ''k2''\<rparr>"
  using credentials_frame [of "DeleteServer (JNum 3)" example_env
      "answer (Fulfilled \<lparr>resp_status = 204, resp_data = JStr ''''\<rparr>)"
      "''https://panel.example.com/''" "''k2''"]
    credentials_frame [of "SetApiKey ''https://panel.example.com/'' ''k2''" example_env
      "answer (Fulfilled \<lparr>resp_status = 200, resp_data = JNull\<rparr>)"
      "''https://panel.example.com/''" "''k2''"]
  by (simp add: example_env_def)

section \<open>Paths and payloads\<close>

lemma getServerInformation_path:
  "convertible external \<Longrightarrow> js_toString sid = Some t \<Longrightarrow>
   calls (getServerInformation sid external e net) = [fst (getRequest e net (''external/'' @ t))]"
  by (auto simp: getServerInformation_def js_concat_def Let_def split_def convertible_def)

text \<open>
  C4. The specification has \<open>getServerInformation(id, external)\<close> request
  \<open>/api/application/servers/external/<id>\<close> or \<open>/api/application/servers/<id>\<close>. The
  code requests the path \<open>external/<id>\<close> whatever \<open>external\<close> is; evaluated here for
  \<open>getServerInformation(5, false)\<close>.
\<close>

theorem getServerInformation_ignores_external:
  "map call_url (calls (getServerInformation (JNum 5) (JBool False) example_env
      (answer (Fulfilled \<lparr>resp_status = 200, resp_data = JNull\<rparr>)))) =
     [JStr ''https://panel.example.comexternal/5'']"
  by (simp add: getServerInformation_def js_concat_def Let_def split_def fst_helpers
      example_env_def env_string_def show_int_def digits.simps)

lemma createServer_call:
  "calls (createServer a1 a2 a3 a4 a5 a6 a7 a8 a9 a10 a11 a12 a13 a14 a15 a16 a17 a18 a19 a20
      e net) =
   [fst (postRequest e net ''/api/application/servers''
      (createServer_data a1 a2 a3 a4 a5 a6 a7 a8 a9 a10 a11
         (default_to (JNum 0) a12) (default_to (JNum (- 1)) a13) (default_to (JNum 500) a14)
         (default_to (JArr []) a15) (default_to (JNum 0) a16) (default_to (JNum 0) a17)
         (default_to (JObj [(''locations'', JArr [JNum 1]), (''dedicated_ip'', JBool False),
                            (''port_range'', JArr [])]) a18)
         (default_to (JBool False) a19) (default_to (JBool True) a20)))]"
proof -
  let ?cs = "createServer_checks a1 a2 a3 a4 a5 a6 a7 a8 a9 a10 a11
       (default_to (JNum 0) a12) (default_to (JNum (- 1)) a13) (default_to (JNum 500) a14)
       (default_to (JArr []) a15) (default_to (JNum 0) a16) (default_to (JNum 0) a17)
       (default_to (JObj [(''locations'', JArr [JNum 1]), (''dedicated_ip'', JBool False),
                          (''port_range'', JArr [])]) a18)
       (default_to (JBool False) a19) (default_to (JBool True) a20)"
  have "list_all (\<lambda>(c, m). c \<noteq> None) ?cs"
    by (rule createServer_checks_total)
  then obtain p' where "validate ?cs Pending = Continues p'"
    using validate_Continues by blast
  then show ?thesis
    by (simp add: createServer_def Let_def split_def split del: if_split)
qed

text \<open>
  C6. \<open>createServer\<close> issues one POST to \<open>/api/application/servers\<close> whose payload is
  built from the arguments field by field. An optional argument that is given is sent
  as given; one that is omitted (\<open>undefined\<close>) is replaced by its default: \<open>cpu = 0\<close>,
  \<open>swap = -1\<close>, \<open>io = 500\<close>, \<open>additionalAllocations = []\<close>, \<open>databases = 0\<close>,
  \<open>allocations = 0\<close>, \<open>deploy = {locations: [1], dedicated_ip: false, port_range: []}\<close>,
  \<open>skipScripts = false\<close>, \<open>oomDisabled = true\<close>. This holds for all arguments, valid or
  not.
\<close>

theorem createServer_payload:
  "\<exists>c. calls (createServer name description userID eggID startup dockerImage allocationID
          startOnComplete environment memory disk cpu swap io additionalAllocations databases
          allocations deploy skipScripts oomDisabled e net) = [c] \<and>
     call_method c = POST \<and>
     call_url c = JStr ((case ADMIN_HOST e of None \<Rightarrow> ''undefined'' | Some h \<Rightarrow> h) @
                        ''/api/application/servers'') \<and>
     call_body c = Some (JObj
       [(''name'', name),
        (''description'', description),
        (''startup'', startup),
        (''environment'', environment),
        (''deploy'', if deploy = JUndefined
                     then JObj [(''locations'', JArr [JNum 1]), (''dedicated_ip'', JBool False),
                                (''port_range'', JArr [])]
                     else deploy),
        (''start_on_completion'', startOnComplete),
        (''user'', userID),
        (''egg'', eggID),
        (''limits'', JObj [(''memory'', memory),
                           (''swap'', if swap = JUndefined then JNum (- 1) else swap),
                           (''disk'', disk),
                           (''io'', if io = JUndefined then JNum 500 else io),
                           (''cpu'', if cpu = JUndefined then JNum 0 else cpu)]),
        (''feature_limits'',
           JObj [(''databases'', if databases = JUndefined then JNum 0 else databases),
                 (''allocations'', if allocations = JUndefined then JNum 0 else allocations)]),
        (''docker_image'', dockerImage),
        (''allocation'',
           JObj [(''default'', allocationID),
                 (''additional'', if additionalAllocations = JUndefined then JArr []
                                  else additionalAllocations)]),
        (''skip_scripts'', if skipScripts = JUndefined then JBool False else skipScripts),
        (''oom_disabled'', if oomDisabled = JUndefined then JBool True else oomDisabled)])"
  by (simp add: createServer_call fst_helpers createServer_data_def default_to_def
      env_string_def split del: if_split)

theorem createServer_payload_witness:
  "map call_body (calls (createServer (JStr ''survival'') (JStr ''a server'') (JNum 1) (JNum 5)
      (JStr ''java -jar server.jar'') (JStr ''quay.io/pterodactyl/core:java'') (JNum 7)
      (JBool True) (JObj [(''VERSION'', JStr ''latest'')]) (JNum 1024) (JNum 2048)
      (JNum 200) (JNum 64) (JNum 300) (JArr [JNum 8, JNum 9]) (JNum 2) (JNum 3)
      (JObj [(''locations'', JArr [JNum 2]), (''dedicated_ip'', JBool True),
             (''port_range'', JArr [JStr ''25565''])])
      (JBool True) (JBool False)
      example_env (answer (Fulfilled \<lparr>resp_status = 201, resp_data = JNull\<rparr>)))) =
   [Some (JObj
       [(''name'', JStr ''survival''),
        (''description'', JStr ''a server''),
        (''startup'', JStr ''java -jar server.jar''),
        (''environment'', JObj [(''VERSION'', JStr ''latest'')]),
        (''deploy'', JObj [(''locations'', JArr [JNum 2]), (''dedicated_ip'', JBool True),
                           (''port_range'', JArr [JStr ''25565''])]),
        (''start_on_completion'', JBool True),
        (''user'', JNum 1),
        (''egg'', JNum 5),
        (''limits'', JObj [(''memory'', JNum 1024), (''swap'', JNum 64), (''disk'', JNum 2048),
                           (''io'', JNum 300), (''cpu'', JNum 200)]),
        (''feature_limits'', JObj [(''databases'', JNum 2), (''allocations'', JNum 3)]),
        (''docker_image'', JStr ''quay.io/pterodactyl/core:java''),
        (''allocation'', JObj [(''default'', JNum 7), (''additional'', JArr [JNum 8, JNum 9])]),
        (''skip_scripts'', JBool True),
        (''oom_disabled'', JBool False)])] \<and>
   map call_body (calls (createServer (JStr ''survival'') (JStr ''a server'') (JNum 1) (JNum 5)
      (JStr ''java -jar server.jar'') (JStr ''quay.io/pterodactyl/core:java'') (JNum 7)
      (JBool True) (JObj [(''VERSION'', JStr ''latest'')]) (JNum 1024) (JNum 2048)
      JUndefined JUndefined JUndefined JUndefined JUndefined JUndefined JUndefined JUndefined
      JUndefined example_env (answer (Fulfilled \<lparr>resp_status = 201, resp_data = JNull\<rparr>)))) =
   [Some (JObj
       [(''name'', JStr ''survival''),
        (''description'', JStr ''a server''),
        (''startup'', JStr ''java -jar server.jar''),
        (''environment'', JObj [(''VERSION'', JStr ''latest'')]),
        (''deploy'', JObj [(''locations'', JArr [JNum 1]), (''dedicated_ip'', JBool False),
                           (''port_range'', JArr [])]),
        (''start_on_completion'', JBool True),
        (''user'', JNum 1),
        (''egg'', JNum 5),
        (''limits'', JObj [(''memory'', JNum 1024), (''swap'', JNum (- 1)), (''disk'', JNum 2048),
                           (''io'', JNum 500), (''cpu'', JNum 0)]),
        (''feature_limits'', JObj [(''databases'', JNum 0), (''allocations'', JNum 0)]),
        (''docker_image'', JStr ''quay.io/pterodactyl/core:java''),
        (''allocation'', JObj [(''default'', JNum 7), (''additional'', JArr [])]),
        (''skip_scripts'', JBool False),
        (''oom_disabled'', JBool True)])]"
  using createServer_payload [of "JStr ''survival''" "JStr ''a server''" "JNum 1" "JNum 5"
      "JStr ''java -jar server.jar''" "JStr ''quay.io/pterodactyl/core:java''" "JNum 7"
      "JBool True" "JObj [(''VERSION'', JStr ''latest'')]" "JNum 1024" "JNum 2048"
      "JNum 200" "JNum 64" "JNum 300" "JArr [JNum 8, JNum 9]" "JNum 2" "JNum 3"
      "JObj [(''locations'', JArr [JNum 2]), (''dedicated_ip'', JBool True),
             (''port_range'', JArr [JStr ''25565''])]"
      "JBool True" "JBool False"
      example_env "answer (Fulfilled \<lparr>resp_status = 201, resp_data = JNull\<rparr>)"]
    createServer_payload [of "JStr ''survival''" "JStr ''a server''" "JNum 1" "JNum 5"
      "JStr ''java -jar server.jar''" "JStr ''quay.io/pterodactyl/core:java''" "JNum 7"
      "JBool True" "JObj [(''VERSION'', JStr ''latest'')]" "JNum 1024" "JNum 2048"
      JUndefined JUndefined JUndefined JUndefined JUndefined JUndefined JUndefined JUndefined
      JUndefined example_env "answer (Fulfilled \<lparr>resp_status = 201, resp_data = JNull\<rparr>)"]
  by auto

section \<open>Unwrapping the list of servers\<close>

lemma js_get_property: "js_get v k = (if nullish v then None else Some (property v k))"
  by (cases v) (simp_all add: nullish_def property_def)

lemma those_map_total:
  "those (map (\<lambda>x. if nullish x then None else Some (g x)) xs) =
     (if list_all (\<lambda>x. \<not> nullish x) xs then Some (map g xs) else None)"
  by (induction xs) auto

lemma js_map_total:
  "js_map (\<lambda>x. if nullish x then None else Some (g x)) v =
     (if isArray v \<and> list_all (\<lambda>x. \<not> nullish x) (items v)
      then Some (JArr (map g (items v))) else None)"
  by (cases v) (simp_all add: js_map_def those_map_total)

lemma getAllServers_on_ok:
  "(do {
      d \<leftarrow> js_get response ''data'';
      dd \<leftarrow> js_get d ''data'';
      servers \<leftarrow> js_map (\<lambda>data. js_get data ''attributes'') dd;
      meta \<leftarrow> js_get d ''meta'';
      pagination \<leftarrow> js_get meta ''pagination'';
      Some (Resolved (JObj [(''servers'', servers), (''pagination'', pagination)]))
    }) =
   (if well_formed_listing response
    then Some (Resolved (JObj
      [(''servers'', JArr (map (\<lambda>x. property x ''attributes'')
          (items (property (property response ''data'') ''data'')))),
       (''pagination'', property (property (property response ''data'') ''meta'') ''pagination'')]))
    else None)"
  by (simp add: js_get_property js_map_total well_formed_listing_def)

text \<open>
  C7, as amended. \<open>getAllServers\<close> requests \<open>/api/application/servers\<close>. When the helper
  resolves with a response whose \<open>data.data\<close> is an array without \<open>undefined\<close> or \<open>null\<close>
  elements and whose \<open>data.meta\<close> is neither \<open>undefined\<close> nor \<open>null\<close>, the promise
  resolves with \<open>{servers, pagination}\<close>: \<open>servers\<close> is the \<open>attributes\<close> of each element
  of \<open>response.data.data\<close> in order, \<open>pagination\<close> is \<open>response.data.meta.pagination\<close>.
  For any other resolved response the promise is rejected with the \<open>TypeError\<close> thrown
  while unwrapping. When the helper rejects, the promise is rejected with the same
  error.
\<close>

theorem getAllServers_unwraps:
  "promise (getAllServers e net) =
     (case snd (getRequest e net ''/api/application/servers'') of
        Pending \<Rightarrow> Pending
      | Resolved response \<Rightarrow>
          if well_formed_listing response
          then Resolved (JObj
            [(''servers'', JArr (map (\<lambda>x. property x ''attributes'')
                (items (property (property response ''data'') ''data'')))),
             (''pagination'', property (property (property response ''data'') ''meta'') ''pagination'')])
          else Rejected TypeError
      | Rejected r \<Rightarrow> Rejected r)"
  by (simp add: getAllServers_def split_def then_catch_def getAllServers_on_ok
      split: promise_state.split)

theorem getAllServers_unwraps_witness:
  "promise (getAllServers example_env (answer (Fulfilled \<lparr>resp_status = 200, resp_data =
      JObj [(''data'', JArr [JObj [(''attributes'', JObj [(''id'', JNum 1)])],
                             JObj [(''attributes'', JObj [(''id'', JNum 2)])]]),
            (''meta'', JObj [(''pagination'', JObj [(''total'', JNum 2)])])]\<rparr>))) =
     Resolved (JObj [(''servers'', JArr [JObj [(''id'', JNum 1)], JObj [(''id'', JNum 2)]]),
                     (''pagination'', JObj [(''total'', JNum 2)])]) \<and>
   promise (getAllServers example_env
      (answer (Failed \<lparr>err_status = None, err_message = ''Network Error''\<rparr>))) =
     Rejected (Val (JStr ''Network Error''))"
  using getAllServers_unwraps [of example_env "answer (Fulfilled \<lparr>resp_status = 200, resp_data =
      JObj [(''data'', JArr [JObj [(''attributes'', JObj [(''id'', JNum 1)])],
                             JObj [(''attributes'', JObj [(''id'', JNum 2)])]]),
            (''meta'', JObj [(''pagination'', JObj [(''total'', JNum 2)])])]\<rparr>)"]
    getAllServers_unwraps [of example_env
      "answer (Failed \<lparr>err_status = None, err_message = ''Network Error''\<rparr>)"]
  by (simp add: snd_helpers settle_def answer_def well_formed_listing_def nullish_def
      property_def obj_get_def)

text \<open>
  C7 as stated fails: a successful response whose body is not a listing (here an HTML
  page, status 200) does not resolve the promise; it is rejected with a \<open>TypeError\<close>.
\<close>

theorem getAllServers_malformed_body:
  "promise (getAllServers example_env
      (answer (Fulfilled \<lparr>resp_status = 200, resp_data = JStr ''<html></html>''\<rparr>))) =
     Rejected TypeError"
  by (simp add: getAllServers_def split_def then_catch_def snd_helpers settle_def answer_def
      obj_get_def js_map_def)

section \<open>\<open>setApiKey\<close>\<close>

lemma cleanHost_slash: "cleanHost (s @ ''/'') = s"
proof (induction s)
  case Nil
  show ?case by simp
next
  case (Cons a s)
  then show ?case by (cases s) simp_all
qed

lemma cleanHost_no_slash: "host = [] \<or> last host \<noteq> CHR ''/'' \<Longrightarrow> cleanHost host = host"
  by (induction host rule: cleanHost.induct) auto

text \<open>
  C9. \<open>setApiKey\<close> never rejects. It issues one GET to \<open>host + '/api/application/users'\<close>;
  when that request completes without error the promise resolves with
  \<open>{loggedIn: true, message: 'Successfully authenticated'}\<close>, whatever the status of the
  response (the comparison \<open>res === 404\<close> is between the response object and a number);
  when it errors the promise resolves with \<open>loggedIn: false\<close> and a message, the fixed
  403 text or the error's own message.
\<close>

theorem setApiKey_always_resolves:
  "\<exists>c. calls (setApiKey host key e net) = [c] \<and>
     call_url c = JStr (host @ ''/api/application/users'') \<and>
     promise (setApiKey host key e net) =
       (case net c of
          Fulfilled res \<Rightarrow>
            Resolved (JObj [(''loggedIn'', JBool True),
                            (''message'', JStr ''Successfully authenticated'')])
        | Failed err \<Rightarrow>
            Resolved (JObj [(''loggedIn'', JBool False),
                            (''message'', JStr (if err_status err = Some 403
                               then ''403 Forbidden, please check your API key is valid''
                               else err_message err))]))"
  by (simp add: setApiKey_def Let_def strict_eq_num_def response_obj_def
      split: axios_outcome.split)

theorem setApiKey_always_resolves_witness:
  "promise (setApiKey ''https://panel.example.com'' ''secret'' example_env
      (answer (Fulfilled \<lparr>resp_status = 404, resp_data = JNull\<rparr>))) =
     Resolved (JObj [(''loggedIn'', JBool True),
                     (''message'', JStr ''Successfully authenticated'')]) \<and>
   promise (setApiKey ''https://panel.example.com'' ''secret'' example_env
      (answer (Failed \<lparr>err_status = None, err_message = ''getaddrinfo ENOTFOUND''\<rparr>))) =
     Resolved (JObj [(''loggedIn'', JBool False),
                     (''message'', JStr ''getaddrinfo ENOTFOUND'')])"
  using setApiKey_always_resolves [of "''https://panel.example.com''" "''secret''" example_env
      "answer (Fulfilled \<lparr>resp_status = 404, resp_data = JNull\<rparr>)"]
    setApiKey_always_resolves [of "''https://panel.example.com''" "''secret''" example_env
      "answer (Failed \<lparr>err_status = None, err_message = ''getaddrinfo ENOTFOUND''\<rparr>)"]
  by (auto simp: answer_def)

text \<open>
  C10. \<open>setApiKey(host, key)\<close> stores \<open>ADMIN_HOST = cleanHost(host)\<close>. \<open>cleanHost\<close>
  removes exactly one trailing \<open>/\<close> and leaves a string that does not end in \<open>/\<close> as
  it is. The probe request goes to the host as given, not cleaned.
\<close>

theorem setApiKey_stores_clean_host:
  "ADMIN_HOST (env_after (setApiKey host key e net)) = Some (cleanHost host) \<and>
   cleanHost (s @ ''/'') = s \<and>
   (host = [] \<or> last host \<noteq> CHR ''/'' \<longrightarrow> cleanHost host = host) \<and>
   map call_url (calls (setApiKey host key e net)) = [JStr (host @ ''/api/application/users'')]"
  by (simp add: cleanHost_slash cleanHost_no_slash setApiKey_def Let_def)

theorem setApiKey_stores_clean_host_witness:
  "ADMIN_HOST (env_after (setApiKey ''https://panel.example.com/'' ''secret'' example_env
      (answer (Fulfilled \<lparr>resp_status = 200, resp_data = JNull\<rparr>)))) =
     Some ''https://panel.example.com'' \<and>
   cleanHost ''https://panel.example.com//'' = ''https://panel.example.com/'' \<and>
   cleanHost ''https://panel.example.com'' = ''https://panel.example.com'' \<and>
   map call_url (calls (setApiKey ''https://panel.example.com/'' ''secret'' example_env
      (answer (Fulfilled \<lparr>resp_status = 200, resp_data = JNull\<rparr>)))) =
     [JStr ''https://panel.example.com//api/application/users'']"
  using setApiKey_stores_clean_host [of "''https://panel.example.com/''" "''secret''"
      example_env "answer (Fulfilled \<lparr>resp_status = 200, resp_data = JNull\<rparr>)"
      "''https://panel.example.com/''"]
    setApiKey_stores_clean_host [of "''https://panel.example.com''" "''secret''"
      example_env "answer (Fulfilled \<lparr>resp_status = 200, resp_data = JNull\<rparr>)" "''x''"]
  by simp

section \<open>The value model on examples\<close>

lemma js_isNaN_examples:
  "js_isNaN (JStr ''abc'') = Some True"
  "js_isNaN (JStr '' 12 '') = Some False"
  "js_isNaN (JStr ''1e5'') = Some False"
  "js_isNaN (JStr ''-0x1F'') = Some True"
  "js_isNaN (JStr []) = Some False"
  "js_isNaN JUndefined = Some True"
  "js_isNaN JNull = Some False"
  "js_isNaN (JArr [JNum 5]) = Some False"
  "js_isNaN (JArr [JNum 5, JNum 6]) = Some True"
  "js_isNaN (JObj []) = Some True"
  "js_isNaN (JObj [(''toString'', JNum 1)]) = None"
  "js_isNaN (JArr [JObj [(''toString'', JNull)]]) = None"
  by code_simp+

lemma js_concat_examples:
  "js_concat ''/api/application/servers/'' (JNum 12) = Some ''/api/application/servers/12''"
  "js_concat ''external/'' (JNum (- 3)) = Some ''external/-3''"
  "js_concat ''/servers/'' (JArr [JNum 1, JNull, JStr ''a'']) = Some ''/servers/1,,a''"
  "js_concat ''/servers/'' (JObj [(''id'', JNum 1)]) = Some ''/servers/[object Object]''"
  "js_concat ''/servers/'' (JObj [(''toString'', JNum 1)]) = None"
  by code_simp+

end
